theory Spec2Isabelle
  imports Complex_Main
begin

section \<open>Python values shared by the scripts\<close>

text \<open>
  The scripts exchange JSON documents with the remote API. A parsed document is a
  \<open>json\<close> value; an object keeps its items as an association list read with
  \<open>map_of\<close>. Numbers are integers: no claim depends on a fractional number.
  Byte strings and text are both \<open>string\<close> (a list of 8-bit characters).
\<close>

datatype json =
    JNull
  | JBool bool
  | JNum int
  | JStr string
  | JArr "json list"
  | JObj "(string \<times> json) list"

text \<open>
  The exceptions the scripts can meet, by the class their handlers test:
  \<open>RequestException\<close> is any exception of \<open>requests\<close>, \<open>IOError\<close> any other
  \<open>OSError\<close>, and the rest are the built-in classes of those names.
\<close>

datatype exn =
    RequestException
  | KeyboardInterrupt
  | IOError
  | AttributeError
  | KeyError
  | TypeError
  | ValueError
  | ZeroDivisionError
  | JSONDecodeError
  | UnicodeDecodeError
  | OverflowError
  | MemoryError

text \<open>Python truthiness of a parsed JSON value (\<open>if x:\<close>).\<close>

fun truthy :: "json \<Rightarrow> bool" where
  "truthy JNull = False"
| "truthy (JBool b) = b"
| "truthy (JNum n) = (n \<noteq> 0)"
| "truthy (JStr s) = (s \<noteq> [])"
| "truthy (JArr xs) = (xs \<noteq> [])"
| "truthy (JObj kvs) = (kvs \<noteq> [])"

text \<open>\<open>d.get(k, default)\<close>: only a dict has the method.\<close>

fun py_get :: "json \<Rightarrow> string \<Rightarrow> json \<Rightarrow> exn + json" where
  "py_get (JObj kvs) k d = Inr (case map_of kvs k of Some v \<Rightarrow> v | None \<Rightarrow> d)"
| "py_get _ k d = Inl AttributeError"

text \<open>\<open>d[k]\<close> with a string key: KeyError on a dict without the key, TypeError on
  every other JSON value.\<close>

fun py_item :: "json \<Rightarrow> string \<Rightarrow> exn + json" where
  "py_item (JObj kvs) k = (case map_of kvs k of Some v \<Rightarrow> Inr v | None \<Rightarrow> Inl KeyError)"
| "py_item _ k = Inl TypeError"

text \<open>
  An HTTP exchange made with \<open>requests\<close>: the call raises, or returns a response with
  a status code whose \<open>.json()\<close> raises or yields a document.
\<close>

record response =
  status_code :: nat
  json_body :: "exn + json"

datatype reply = Raises exn | Reply response

text \<open>
  What a script prints, by message, and what it does to the outside world: requests
  to the service, \<open>time.sleep\<close>, the prompt, and file operations (\<open>open(p, 'wb')\<close>,
  \<open>write\<close>, \<open>unlink\<close>).
\<close>

datatype message =
    ApiKeyNotSet
  | FileNotFound
  | SizeLimitExceeded
  | InvalidChunkSize
  | Banner
  | ApiError json
  | ChunkFailed nat
  | AllChunksUploaded
  | UploadComplete
  | RequestError
  | CancelledByUser
  | UnexpectedError
  | FileWriteError
  | FailedToCheckStatus
  | ConversionComplete
  | ConversionFailed
  | JobError json
  | Timeout
  | DownloadFailed
  | FileSaved
  | JobQueued
  | JobProcessing
  | JobCancelled
  | JobDetails
  | EmptyResponse
  | FileNotAvailable json
  | NoDownloadUrl
  | FileInformation
  | DownloadComplete
  | SizeMismatch
  | PartialFileDeleted

datatype event =
    Print message
  | Traceback exn
  | PostInit int int int
  | PostChunk json nat string
  | PostComplete json
  | Sleep nat
  | GetJob json
  | GetUrl json
  | Prompt
  | OpenWrite string
  | Write string string
  | Unlink string

text \<open>
  A run of a script section either leaves the process (\<open>Inl\<close>: exit status and
  trace of events so far) or goes on with a value (\<open>Inr\<close>).
\<close>

type_synonym 'a run = "(nat \<times> event list) + ('a \<times> event list)"

section \<open>chunked-upload/upload-large-file.py\<close>

text \<open>
  The three \<open>except\<close> clauses that close \<open>upload_large_file\<close>, and in the same
  words \<open>convert_file\<close>, \<open>convert_from_url\<close> and \<open>check_status\<close>; each prints its
  message and calls \<open>sys.exit(1)\<close>.
\<close>

fun handler :: "exn \<Rightarrow> message" where
  "handler RequestException = RequestError"
| "handler KeyboardInterrupt = CancelledByUser"
| "handler _ = UnexpectedError"

text \<open>
  The error branch of a response with status \<ge> 400:
  \<open>error = response.json().get('error', {})\<close>, then \<open>error.get('message', default)\<close>
  is printed. Any exception on the way reaches the handlers above.
\<close>

definition error_message :: "exn + json \<Rightarrow> json \<Rightarrow> exn + json" where
  "error_message body dflt =
     (case body of
        Inl e \<Rightarrow> Inl e
      | Inr error_data \<Rightarrow>
          (case py_get error_data ''error'' (JObj []) of
             Inl e \<Rightarrow> Inl e
           | Inr error \<Rightarrow> py_get error ''message'' dflt))"

definition error_report :: "exn + json \<Rightarrow> json \<Rightarrow> message" where
  "error_report body dflt =
     (case error_message body dflt of Inl e \<Rightarrow> handler e | Inr m \<Rightarrow> ApiError m)"

text \<open>
  \<open>file.read(n)\<close> on the rest of a file opened with \<open>open(path, 'rb')\<close>, on a
  platform whose sizes have 64 bits. The size is checked first: it must fit a signed
  64-bit index (OverflowError otherwise), it must be \<open>-1\<close> or non-negative
  (ValueError otherwise), and a bytes object of that size must be representable, which
  needs 33 bytes more (OverflowError otherwise). Then \<open>-1\<close> yields all that is left
  and any other size up to that many bytes. The value is the bytes read and the rest
  of the file.
\<close>

definition file_read :: "int \<Rightarrow> string \<Rightarrow> exn + (string \<times> string)" where
  "file_read n file =
     (if n < - 9223372036854775808 \<or> 9223372036854775807 < n then Inl OverflowError
      else if n < - 1 then Inl ValueError
      else if n = - 1 then Inr (file, [])
      else if 9223372036854775807 - 33 < n then Inl OverflowError
      else Inr (take (nat n) file, drop (nat n) file))"

text \<open>
  \<open>for chunk_index in range(total_chunks)\<close> (lines 141-174): read, post, check the
  status code, go on. The first argument after the chunk size counts the iterations
  left; \<open>file\<close> is what the open file still holds. \<open>rd chunk_index\<close> is what the
  platform raises when the read of an accepted size is carried out (MemoryError when
  the buffer cannot be allocated, an \<open>OSError\<close> of the device), if anything. Every
  exception reaches the handlers of the enclosing \<open>try\<close>.
\<close>

fun upload_chunks ::
  "(nat \<Rightarrow> exn option) \<Rightarrow> (nat \<Rightarrow> reply) \<Rightarrow> json \<Rightarrow> int \<Rightarrow> nat \<Rightarrow> nat \<Rightarrow> string \<Rightarrow>
     event list \<Rightarrow> string run"
where
  "upload_chunks rd srv session_id chunk_size 0 chunk_index file tr = Inr (file, tr)"
| "upload_chunks rd srv session_id chunk_size (Suc n) chunk_index file tr =
     (case file_read chunk_size file of
        Inl e \<Rightarrow> Inl (1, tr @ [Print (handler e)])
      | Inr (chunk_data, rest) \<Rightarrow>
          (case rd chunk_index of
             Some e \<Rightarrow> Inl (1, tr @ [Print (handler e)])
           | None \<Rightarrow>
               (let tr1 = tr @ [PostChunk session_id chunk_index chunk_data]
                in case srv chunk_index of
                     Raises e \<Rightarrow> Inl (1, tr1 @ [Print (handler e)])
                   | Reply chunk_response \<Rightarrow>
                       if status_code chunk_response \<ge> 400
                       then Inl (1, tr1 @ [Print (ChunkFailed (chunk_index + 1)),
                                           Print (error_report (json_body chunk_response)
                                                    (JStr ''Unknown error''))])
                       else upload_chunks rd srv session_id chunk_size n (Suc chunk_index)
                              rest tr1)))"

text \<open>
  The inputs of one run: the configured key (every script has it), the bytes of the
  input file (\<open>None\<close> when the path does not exist), the \<open>--chunk-size\<close> option
  after \<open>int(...)\<close>, the remote service's answers, and what the platform raises (if
  anything) when the input file is opened for reading (line 136) and when the chunk
  of each index is read (line 143).
\<close>

datatype chunk_opt = NoChunkSize | BadChunkSize | ChunkSize int

record script_env =
  API_KEY :: "string option"

record upload_input = script_env +
  input_file :: "string option"
  chunk_size_opt :: chunk_opt
  init_reply :: reply
  chunk_reply :: "nat \<Rightarrow> reply"
  complete_reply :: reply
  open_input_raises :: "exn option"
  read_raises :: "nat \<Rightarrow> exn option"

text \<open>\<open>if not API_KEY\<close>: the key is unset or empty.\<close>

definition key_missing :: "string option \<Rightarrow> bool" where
  "key_missing k = (case k of None \<Rightarrow> True | Some s \<Rightarrow> s = [])"

text \<open>
  Lines 64-70: the chunk size in MiB is 5 unless the option is present and
  \<open>int(...)\<close> accepts it; a ValueError prints a warning and keeps the default.
\<close>

fun determine_chunk_size :: "chunk_opt \<Rightarrow> int" where
  "determine_chunk_size (ChunkSize n) = n"
| "determine_chunk_size _ = 5"

fun chunk_size_warning :: "chunk_opt \<Rightarrow> event list" where
  "chunk_size_warning BadChunkSize = [Print InvalidChunkSize]"
| "chunk_size_warning _ = []"

text \<open>Step 3 (lines 182-198): finalize, and read the job identifier.\<close>

definition complete_upload :: "reply \<Rightarrow> json \<Rightarrow> event list \<Rightarrow> json run" where
  "complete_upload rep session_id tr =
     (let tr1 = tr @ [Print AllChunksUploaded, PostComplete session_id]
      in case rep of
           Raises e \<Rightarrow> Inl (1, tr1 @ [Print (handler e)])
         | Reply complete_response \<Rightarrow>
             if status_code complete_response \<ge> 400
             then Inl (1, tr1 @ [Print (error_report (json_body complete_response)
                                          (JStr ''Failed to complete upload''))])
             else (case json_body complete_response of
                     Inl e \<Rightarrow> Inl (1, tr1 @ [Print (handler e)])
                   | Inr job \<Rightarrow>
                       (case py_item job ''job_id'' of
                          Inl e \<Rightarrow> Inl (1, tr1 @ [Print (handler e)])
                        | Inr job_id \<Rightarrow> Inr (job_id, tr1 @ [Print UploadComplete]))))"

text \<open>Steps 1 to 3 inside the \<open>try\<close> (lines 83-198).\<close>

definition upload_session ::
  "upload_input \<Rightarrow> string \<Rightarrow> int \<Rightarrow> int \<Rightarrow> event list \<Rightarrow> json run"
where
  "upload_session inp file chunk_size total_chunks tr =
     (let tr1 = tr @ [PostInit (int (length file)) total_chunks chunk_size]
      in case init_reply inp of
           Raises e \<Rightarrow> Inl (1, tr1 @ [Print (handler e)])
         | Reply r \<Rightarrow>
             if status_code r \<ge> 400
             then Inl (1, tr1 @ [Print (error_report (json_body r)
                                          (JStr ''Failed to initialize upload''))])
             else (case json_body r of
                     Inl e \<Rightarrow> Inl (1, tr1 @ [Print (handler e)])
                   | Inr session \<Rightarrow>
                       (case py_item session ''session_id'' of
                          Inl e \<Rightarrow> Inl (1, tr1 @ [Print (handler e)])
                        | Inr session_id \<Rightarrow>
                            (case open_input_raises inp of
                               Some e \<Rightarrow> Inl (1, tr1 @ [Print (handler e)])
                             | None \<Rightarrow>
                                 (case upload_chunks (read_raises inp) (chunk_reply inp)
                                         session_id chunk_size (nat total_chunks) 0 file tr1 of
                                    Inl x \<Rightarrow> Inl x
                                  | Inr (rest, tr2) \<Rightarrow>
                                      complete_upload (complete_reply inp) session_id tr2)))))"

text \<open>
  \<open>upload_large_file\<close> up to the job identifier (lines 39-198); the polling that
  follows is the loop \<open>monitor\<close> below, and the display of the result is left out.
  \<open>total_chunks\<close> is line 73,
  \<open>math.ceil(file_size / chunk_size)\<close>. The quotient
  \<open>file_size / chunk_size\<close> is Python's true division of two integers: the exact
  quotient rounded to the nearest double. A positive quotient of at most
  \<open>1 / 2 ^ 1075\<close>, half the smallest positive double, rounds to \<open>0.0\<close>,
  whose ceiling is 0 and not 1. Everywhere else the rounding does not change the
  ceiling: the file size is at most \<open>2 ^ 31\<close> here (line 60) and the chunk size a
  non-zero multiple of 1048576, so a quotient that is not an integer lies further
  than \<open>1 / 2 ^ 31\<close> above the integer below it, more than the rounding can move
  it, and a negative quotient above \<open>-1\<close> rounds to a double in \<open>(-1, 0]\<close>, whose
  ceiling is 0. A chunk size of zero raises ZeroDivisionError before the \<open>try\<close>, so
  the interpreter prints a traceback and exits with status 1.
\<close>

definition total_chunks :: "int \<Rightarrow> int \<Rightarrow> int" where
  "total_chunks file_size chunk_size =
     (let quotient = real_of_int file_size / real_of_int chunk_size
      in if 0 < quotient \<and> quotient \<le> 1 / 2 ^ 1075 then 0 else \<lceil>quotient\<rceil>)"

definition upload_large_file :: "upload_input \<Rightarrow> json run" where
  "upload_large_file inp =
     (if key_missing (API_KEY inp) then Inl (1, [Print ApiKeyNotSet])
      else case input_file inp of
             None \<Rightarrow> Inl (1, [Print FileNotFound])
           | Some file \<Rightarrow>
               let file_size = int (length file) in
               if file_size > 2147483648 then Inl (1, [Print SizeLimitExceeded])
               else
                 let chunk_size_mb = determine_chunk_size (chunk_size_opt inp);
                     warn = chunk_size_warning (chunk_size_opt inp);
                     chunk_size = chunk_size_mb * 1048576
                 in if chunk_size = 0 then Inl (1, warn @ [Traceback ZeroDivisionError])
                    else upload_session inp file chunk_size
                           (total_chunks file_size chunk_size) (warn @ [Print Banner]))"

text \<open>Observations on a run.\<close>

fun trace_of :: "'a run \<Rightarrow> event list" where
  "trace_of (Inl (c, tr)) = tr"
| "trace_of (Inr (v, tr)) = tr"

fun is_request :: "event \<Rightarrow> bool" where
  "is_request (PostInit f n c) = True"
| "is_request (PostChunk s i b) = True"
| "is_request (PostComplete s) = True"
| "is_request _ = False"

definition requests :: "event list \<Rightarrow> event list" where
  "requests tr = filter is_request tr"

fun chunk_bodies :: "event list \<Rightarrow> string list" where
  "chunk_bodies [] = []"
| "chunk_bodies (PostChunk s i b # tr) = b # chunk_bodies tr"
| "chunk_bodies (e # tr) = chunk_bodies tr"

text \<open>A chunk upload is acknowledged when the call returns a status below 400.\<close>

fun acknowledged :: "reply \<Rightarrow> bool" where
  "acknowledged (Raises e) = False"
| "acknowledged (Reply r) = (status_code r < 400)"

text \<open>
  Example runs: a file of \<open>n_bytes\<close> bytes, the default chunk size, a service that opens
  session \<open>s1\<close>, answers the chunk uploads as \<open>srv\<close> says and finalizes into job
  \<open>j1\<close>.
\<close>

definition http :: "nat \<Rightarrow> json \<Rightarrow> reply" where
  "http code doc = Reply \<lparr>status_code = code, json_body = Inr doc\<rparr>"

definition acks_all :: "nat \<Rightarrow> reply" where
  "acks_all i = http 200 (JObj [])"

definition fails_at :: "nat \<Rightarrow> nat \<Rightarrow> reply" where
  "fails_at k i = (if i = k then http 500 (JObj []) else http 200 (JObj []))"

definition example_upload :: "nat \<Rightarrow> (nat \<Rightarrow> reply) \<Rightarrow> upload_input" where
  "example_upload n_bytes srv =
     \<lparr>API_KEY = Some ''key'',
      input_file = Some (replicate n_bytes CHR ''x''),
      chunk_size_opt = NoChunkSize,
      init_reply = http 200 (JObj [(''session_id'', JStr ''s1'')]),
      chunk_reply = srv,
      complete_reply = http 200 (JObj [(''job_id'', JStr ''j1'')]),
      open_input_raises = None,
      read_raises = (\<lambda>i. None)\<rparr>"

text \<open>The same run with the option \<open>--chunk-size\<close> set to \<open>mb\<close>.\<close>

definition example_upload_with :: "int \<Rightarrow> nat \<Rightarrow> (nat \<Rightarrow> reply) \<Rightarrow> upload_input" where
  "example_upload_with mb n_bytes srv =
     (example_upload n_bytes srv)\<lparr>chunk_size_opt := ChunkSize mb\<rparr>"

section \<open>The polling loop of the conversion scripts\<close>

text \<open>\<open>status in ['processing', 'queued', 'pending']\<close>.\<close>

definition active :: "json \<Rightarrow> bool" where
  "active status = (status \<in> set [JStr ''processing'', JStr ''queued'', JStr ''pending''])"

text \<open>
  The \<open>while\<close> loop of simple-convert/convert.py (lines 141-157), which
  url-convert/convert-from-url.py (lines 147-163) and
  chunked-upload/upload-large-file.py (lines 209-225) repeat with another
  \<open>max_attempts\<close> (60, 90, 180) and, in the last, \<open>job_status['status']\<close> for
  \<open>job_status.get('status', 'processing')\<close>: that read is \<open>get_status\<close>. \<open>srv k\<close> is
  the service's answer to the request made when \<open>attempts\<close> was \<open>k\<close>. A status
  \<ge> 400 prints and calls \<open>sys.exit(1)\<close>; an exception reaches the handlers. The
  loop ends with the last status, the last job descriptor (\<open>None\<close> when no request
  was made) and the number of attempts.
\<close>

function monitor ::
  "nat \<Rightarrow> (json \<Rightarrow> exn + json) \<Rightarrow> (nat \<Rightarrow> reply) \<Rightarrow> json \<Rightarrow> json \<Rightarrow> json option \<Rightarrow> nat \<Rightarrow>
   event list \<Rightarrow> (json \<times> json option \<times> nat) run"
where
  "monitor max_attempts get_status srv job_id status job_status attempts tr =
     (if active status \<and> attempts < max_attempts
      then (let tr1 = tr @ [Sleep 2, GetJob job_id]
            in case srv attempts of
                 Raises e \<Rightarrow> Inl (1, tr1 @ [Print (handler e)])
               | Reply response \<Rightarrow>
                   if status_code response \<ge> 400
                   then Inl (1, tr1 @ [Print FailedToCheckStatus])
                   else (case json_body response of
                           Inl e \<Rightarrow> Inl (1, tr1 @ [Print (handler e)])
                         | Inr js \<Rightarrow>
                             (case get_status js of
                                Inl e \<Rightarrow> Inl (1, tr1 @ [Print (handler e)])
                              | Inr st \<Rightarrow>
                                  monitor max_attempts get_status srv job_id st (Some js)
                                    (attempts + 1) tr1)))
      else Inr ((status, job_status, attempts), tr))"
  by pat_completeness auto
termination
  by (relation "measure (\<lambda>(m, g, srv, j, st, js, a, tr). m - a)") auto

declare monitor.simps [simp del]

definition status_or_processing :: "json \<Rightarrow> exn + json" where
  "status_or_processing js = py_get js ''status'' (JStr ''processing'')"

definition status_item :: "json \<Rightarrow> exn + json" where
  "status_item js = py_item js ''status''"

text \<open>
  The loop of ocr-convert/ocr-image-to-text.py (lines 160-173): at most
  \<open>max_attempts\<close> rounds, each ended at once by a status other than
  \<open>processing\<close> and \<open>queued\<close>; the status code of the response is not read, and an
  exception in the request, in \<open>.json()\<close> or in \<open>.get\<close> only ends the round
  (\<open>except Exception: continue\<close>). A keyboard interrupt is not an \<open>Exception\<close>: it
  reaches the handler around \<open>main()\<close>, which exits with status 1. The first
  number counts the rounds left, the second the requests made.
\<close>

fun ocr_poll ::
  "(nat \<Rightarrow> reply) \<Rightarrow> json \<Rightarrow> nat \<Rightarrow> nat \<Rightarrow> json \<Rightarrow> json option \<Rightarrow> event list \<Rightarrow>
   (json \<times> json option) run"
where
  "ocr_poll srv job_id 0 k status job_status tr = Inr ((status, job_status), tr)"
| "ocr_poll srv job_id (Suc n) k status job_status tr =
     (if status \<notin> set [JStr ''processing'', JStr ''queued'']
      then Inr ((status, job_status), tr)
      else (let tr1 = tr @ [Sleep 2, GetJob job_id]
            in case srv k of
                 Raises e \<Rightarrow>
                   if e = KeyboardInterrupt then Inl (1, tr1 @ [Print CancelledByUser])
                   else ocr_poll srv job_id n (Suc k) status job_status tr1
               | Reply resp \<Rightarrow>
                   (case json_body resp of
                      Inl e \<Rightarrow> ocr_poll srv job_id n (Suc k) status job_status tr1
                    | Inr js \<Rightarrow>
                        (case py_get js ''status'' (JStr ''unknown'') of
                           Inl e \<Rightarrow> ocr_poll srv job_id n (Suc k) status (Some js) tr1
                         | Inr st \<Rightarrow> ocr_poll srv job_id n (Suc k) st (Some js) tr1))))"

text \<open>The number of status requests in a trace.\<close>

fun is_poll :: "event \<Rightarrow> bool" where
  "is_poll (GetJob j) = True"
| "is_poll _ = False"

definition polls :: "event list \<Rightarrow> nat" where
  "polls tr = length (filter is_poll tr)"

text \<open>
  A service replayed from a script: the listed answers in turn, then \<open>dflt\<close> for
  ever.
\<close>

definition replay :: "'a list \<Rightarrow> 'a \<Rightarrow> nat \<Rightarrow> 'a" where
  "replay xs dflt k = (if k < length xs then xs ! k else dflt)"

definition job_with_status :: "string \<Rightarrow> json" where
  "job_with_status s = JObj [(''job_id'', JStr ''j1''), (''status'', JStr s)]"

section \<open>Downloads and the files on disk\<close>

text \<open>
  A streamed download: the call raises, or returns a status code, the value of
  \<open>int(response.headers.get('content-length', 0))\<close>, and the chunks that
  \<open>iter_content\<close> yields; an \<open>Inl\<close> in the stream is an exception raised while the
  next chunk is awaited (a keyboard interrupt, a broken connection).
\<close>

record download =
  dl_status :: nat
  content_length :: "exn + int"
  chunks :: "(exn + string) list"

datatype download_reply = DownloadRaises exn | Download download

text \<open>
  What the job scripts read from their environment: the service's answers to the
  successive status requests and to the download, what \<open>open(output_file, 'wb')\<close>
  raises (if anything), the files on disk before the run, the \<open>--output\<close> option,
  the user's answer to the download prompt, the file name generated from the clock,
  and \<open>pathlib\<close>'s \<open>Path(...).stem\<close>.
\<close>

record job_env = script_env +
  job_reply :: "nat \<Rightarrow> reply"
  download_reply :: download_reply
  open_raises :: "exn option"
  files :: "string \<Rightarrow> string option"
  output_opt :: "string option"
  answer :: "exn + string"
  default_name :: string
  stem :: "string \<Rightarrow> string"

text \<open>The effect of a trace on the files: \<open>open(p, 'wb')\<close> creates or empties.\<close>

fun apply_event :: "event \<Rightarrow> (string \<Rightarrow> string option) \<Rightarrow> (string \<Rightarrow> string option)" where
  "apply_event (OpenWrite p) fs = fs(p \<mapsto> [])"
| "apply_event (Write p b) fs = fs(p \<mapsto> (case fs p of Some old \<Rightarrow> old @ b | None \<Rightarrow> b))"
| "apply_event (Unlink p) fs = fs(p := None)"
| "apply_event _ fs = fs"

definition files_after :: "event list \<Rightarrow> (string \<Rightarrow> string option) \<Rightarrow> (string \<Rightarrow> string option)" where
  "files_after tr fs = foldl (\<lambda>fs e. apply_event e fs) fs tr"

text \<open>
  \<open>for chunk in response.iter_content(chunk_size=8192): if chunk: f.write(chunk)\<close>,
  inside \<open>with open(...)\<close>: an exception leaves the loop, the file is closed with
  what was written.
\<close>

fun write_chunks :: "string \<Rightarrow> (exn + string) list \<Rightarrow> event list \<Rightarrow> exn option \<times> event list" where
  "write_chunks path [] tr = (None, tr)"
| "write_chunks path (Inl e # rest) tr = (Some e, tr)"
| "write_chunks path (Inr chunk # rest) tr =
     write_chunks path rest (if chunk \<noteq> [] then tr @ [Write path chunk] else tr)"

text \<open>
  \<open>format_file_size\<close> first compares its argument with the float \<open>1024.0\<close>: any
  value but a number or a bool raises TypeError there. An integer below 1024 is
  formatted with \<open>:.2f\<close> and one from 1024 on is divided by \<open>1024.0\<close>; both convert
  it to a double, which raises OverflowError when the integer rounds to a magnitude
  of \<open>2 ^ 1024\<close> or more, that is from \<open>2 ^ 1024 - 2 ^ 970\<close> on.
\<close>

definition float_overflow :: "int \<Rightarrow> bool" where
  "float_overflow n = (2 ^ 1024 - 2 ^ 970 \<le> \<bar>n\<bar>)"

fun format_file_size :: "json \<Rightarrow> exn option" where
  "format_file_size (JNum n) = (if float_overflow n then Some OverflowError else None)"
| "format_file_size (JBool b) = None"
| "format_file_size _ = Some TypeError"

section \<open>simple-convert/convert.py and url-convert/convert-from-url.py\<close>

text \<open>Lines 166-172 of convert.py: the result lines, read with \<open>result[...]\<close>.\<close>

definition print_results :: "json \<Rightarrow> exn option" where
  "print_results result =
     (case py_item result ''format'' of
        Inl e \<Rightarrow> Some e
      | Inr f \<Rightarrow>
          (case py_item result ''file_size'' of
             Inl e \<Rightarrow> Some e
           | Inr sz \<Rightarrow>
               (case format_file_size sz of
                  Some e \<Rightarrow> Some e
                | None \<Rightarrow>
                    (case py_item result ''expires_at'' of
                       Inl e \<Rightarrow> Some e
                     | Inr x \<Rightarrow> None))))"

text \<open>
  Lines 175-179: the output file is \<open>--output\<close>, or, when that is missing or empty
  and the user answers \<open>y\<close>, a generated name; otherwise there is none.
\<close>

definition choose_output ::
  "job_env \<Rightarrow> event list \<Rightarrow> (exn \<times> event list) + (string option \<times> event list)"
where
  "choose_output env tr =
     (case output_opt env of
        Some p \<Rightarrow>
          if p \<noteq> [] then Inr (Some p, tr)
          else (case answer env of
                  Inl e \<Rightarrow> Inl (e, tr @ [Prompt])
                | Inr a \<Rightarrow>
                    Inr (if a = ''y'' \<or> a = ''Y'' then Some (default_name env) else None,
                         tr @ [Prompt]))
      | None \<Rightarrow>
          (case answer env of
             Inl e \<Rightarrow> Inl (e, tr @ [Prompt])
           | Inr a \<Rightarrow>
               Inr (if a = ''y'' \<or> a = ''Y'' then Some (default_name env) else None,
                    tr @ [Prompt])))"

text \<open>
  Lines 181-201: the download. An exception is handed to the caller with the trace
  so far; a status other than 200 only prints.
\<close>

definition save_download ::
  "job_env \<Rightarrow> string \<Rightarrow> json \<Rightarrow> event list \<Rightarrow> exn option \<times> event list"
where
  "save_download env output_file url tr =
     (let tr1 = tr @ [GetUrl url]
      in case download_reply env of
           DownloadRaises e \<Rightarrow> (Some e, tr1)
         | Download d \<Rightarrow>
             if dl_status d = 200
             then (case content_length d of
                     Inl e \<Rightarrow> (Some e, tr1)
                   | Inr total_size \<Rightarrow>
                       (case open_raises env of
                          Some e \<Rightarrow> (Some e, tr1)
                        | None \<Rightarrow>
                            (case write_chunks output_file (chunks d)
                                    (tr1 @ [OpenWrite output_file]) of
                               (Some e, tr2) \<Rightarrow> (Some e, tr2)
                             | (None, tr2) \<Rightarrow> (None, tr2 @ [Print FileSaved]))))
             else (None, tr1 @ [Print DownloadFailed]))"

text \<open>
  The lines printed for a failed job, \<open>if job.get('error'): ...
  job['error'].get('message', 'Unknown error')\<close>; each script then calls
  \<open>sys.exit(1)\<close>, and so does the handler an exception reaches.
\<close>

definition error_lines :: "json \<Rightarrow> message list" where
  "error_lines job =
     (case py_get job ''error'' JNull of
        Inl e \<Rightarrow> [handler e]
      | Inr err \<Rightarrow>
          if truthy err
          then (case py_get err ''message'' (JStr ''Unknown error'') of
                  Inl e \<Rightarrow> [handler e]
                | Inr m \<Rightarrow> [JobError m])
          else [])"

text \<open>
  Step 3 (lines 162-212): the test of the first branch,
  \<open>status == 'completed' and job_status.get('result', {}).get('download_url')\<close>,
  yields the result and its URL when it holds. \<open>job_status\<close> is \<open>None\<close> when the loop
  made no request. The value is the process's exit status (0 when \<open>convert_file\<close>
  returns) and the trace.
\<close>

definition completed_result :: "json \<Rightarrow> json option \<Rightarrow> exn + (json \<times> json) option" where
  "completed_result status job_status =
     (if status = JStr ''completed''
      then (case job_status of
              None \<Rightarrow> Inl AttributeError
            | Some js \<Rightarrow>
                (case py_get js ''result'' (JObj []) of
                   Inl e \<Rightarrow> Inl e
                 | Inr result \<Rightarrow>
                     (case py_get result ''download_url'' JNull of
                        Inl e \<Rightarrow> Inl e
                      | Inr url \<Rightarrow> Inr (if truthy url then Some (result, url) else None))))
      else Inr None)"

definition handle_results :: "job_env \<Rightarrow> json \<Rightarrow> json option \<Rightarrow> event list \<Rightarrow> nat \<times> event list" where
  "handle_results env status job_status tr =
     (case completed_result status job_status of
        Inl e \<Rightarrow> (1, tr @ [Print (handler e)])
      | Inr (Some (result, url)) \<Rightarrow>
          (case print_results result of
             Some e \<Rightarrow> (1, tr @ [Print ConversionComplete, Print (handler e)])
           | None \<Rightarrow>
               (case choose_output env (tr @ [Print ConversionComplete]) of
                  Inl (e, tr2) \<Rightarrow> (1, tr2 @ [Print (handler e)])
                | Inr (None, tr2) \<Rightarrow> (0, tr2)
                | Inr (Some output_file, tr2) \<Rightarrow>
                    (case save_download env output_file url tr2 of
                       (Some e, tr3) \<Rightarrow> (1, tr3 @ [Print (handler e)])
                     | (None, tr3) \<Rightarrow> (0, tr3))))
      | Inr None \<Rightarrow>
          if status = JStr ''failed''
          then (case job_status of
                  None \<Rightarrow> (1, tr @ [Print ConversionFailed, Print (handler AttributeError)])
                | Some js \<Rightarrow> (1, tr @ Print ConversionFailed # map Print (error_lines js)))
          else (1, tr @ [Print Timeout]))"

text \<open>
  \<open>convert_file\<close> from the answer to the submit call on (lines 121-222): \<open>job\<close> is
  the document that call returned with a status below 400. A cached result skips the
  loop. convert-from-url.py is the same text with 90 attempts.
\<close>

definition conversion :: "nat \<Rightarrow> job_env \<Rightarrow> json \<Rightarrow> nat \<times> event list" where
  "conversion max_attempts env job =
     (case py_item job ''job_id'' of
        Inl e \<Rightarrow> (1, [Print (handler e)])
      | Inr job_id \<Rightarrow>
          (case py_get job ''status'' (JStr ''processing'') of
             Inl e \<Rightarrow> (1, [Print (handler e)])
           | Inr status \<Rightarrow>
               if status = JStr ''completed'' \<and>
                  (case py_get job ''result'' JNull of Inl e \<Rightarrow> False | Inr r \<Rightarrow> truthy r)
               then handle_results env status (Some job) []
               else (case monitor max_attempts status_or_processing (job_reply env) job_id
                            status None 0 [] of
                       Inl x \<Rightarrow> x
                     | Inr ((status', job_status, attempts), tr) \<Rightarrow>
                         handle_results env status' job_status tr)))"

definition convert_file :: "job_env \<Rightarrow> json \<Rightarrow> nat \<times> event list" where
  "convert_file = conversion 60"

definition convert_from_url :: "job_env \<Rightarrow> json \<Rightarrow> nat \<times> event list" where
  "convert_from_url = conversion 90"

section \<open>job-management/check-status.py\<close>

text \<open>
  \<open>display_job_details\<close> (lines 170-193): prints only when the job has a result;
  \<open>result.get\<close> needs a dict, the size a number, and \<open>job['job_id']\<close> the key.
\<close>

definition display_job_details :: "json \<Rightarrow> exn + message list" where
  "display_job_details job =
     (case py_get job ''result'' JNull of
        Inl e \<Rightarrow> Inl e
      | Inr result \<Rightarrow>
          if truthy result
          then (case py_get result ''file_size'' (JNum 0) of
                  Inl e \<Rightarrow> Inl e
                | Inr sz \<Rightarrow>
                    (case format_file_size sz of
                       Some e \<Rightarrow> Inl e
                     | None \<Rightarrow>
                         (case py_item job ''job_id'' of
                            Inl e \<Rightarrow> Inl e
                          | Inr j \<Rightarrow> Inr [JobDetails])))
          else Inr [])"

text \<open>
  The \<open>--watch\<close> loop (lines 54-109). \<open>previous_status\<close> starts as \<open>None\<close>
  (\<open>JNull\<close>). A failed job exits with status 1 and a cancelled one with status 0 from
  inside the loop; a completed one breaks out of it; when the attempts run out the
  timeout lines are printed and the function returns, so the process ends with
  status 0.
\<close>

function watch :: "(nat \<Rightarrow> reply) \<Rightarrow> json \<Rightarrow> json \<Rightarrow> nat \<Rightarrow> event list \<Rightarrow> nat \<times> event list" where
  "watch srv job_id previous_status attempts tr =
     (if attempts < 300
      then (let tr1 = tr @ [GetJob job_id]
            in case srv attempts of
                 Raises e \<Rightarrow> (1, tr1 @ [Print (handler e)])
               | Reply response \<Rightarrow>
                   if status_code response \<ge> 400
                   then (1, tr1 @ [Print (error_report (json_body response)
                                            (JStr ''Failed to get job status''))])
                   else (case json_body response of
                           Inl e \<Rightarrow> (1, tr1 @ [Print (handler e)])
                         | Inr job \<Rightarrow>
                             (case py_item job ''status'' of
                                Inl e \<Rightarrow> (1, tr1 @ [Print (handler e)])
                              | Inr status \<Rightarrow>
                                  if status \<noteq> previous_status
                                  then (if status = JStr ''queued''
                                        then watch srv job_id status (attempts + 1)
                                               (tr1 @ [Print JobQueued, Sleep 2])
                                        else if status = JStr ''processing''
                                        then watch srv job_id status (attempts + 1)
                                               (tr1 @ [Print JobProcessing, Sleep 2])
                                        else if status = JStr ''completed''
                                        then (case display_job_details job of
                                                Inl e \<Rightarrow> (1, tr1 @ [Print ConversionComplete,
                                                                  Print (handler e)])
                                              | Inr ms \<Rightarrow> (0, tr1 @ Print ConversionComplete #
                                                                  map Print ms))
                                        else if status = JStr ''failed''
                                        then (1, tr1 @ Print ConversionFailed #
                                                   map Print (error_lines job))
                                        else if status = JStr ''cancelled''
                                        then (0, tr1 @ [Print JobCancelled])
                                        else watch srv job_id status (attempts + 1)
                                               (tr1 @ [Sleep 2]))
                                  else if status \<in> set [JStr ''completed'', JStr ''failed'',
                                                        JStr ''cancelled'']
                                  then (0, tr1)
                                  else watch srv job_id previous_status (attempts + 1)
                                         (tr1 @ [Sleep 2]))))
      else (0, tr @ [Print Timeout]))"
  by pat_completeness auto
termination
  by (relation "measure (\<lambda>(srv, j, p, a, tr). 300 - a)") auto

declare watch.simps [simp del]

text \<open>The single check (lines 112-157): it prints what it finds and returns.\<close>

definition check_once :: "reply \<Rightarrow> json \<Rightarrow> nat \<times> event list" where
  "check_once rep job_id =
     (let tr1 = [GetJob job_id]
      in case rep of
           Raises e \<Rightarrow> (1, tr1 @ [Print (handler e)])
         | Reply response \<Rightarrow>
             if status_code response \<ge> 400
             then (1, tr1 @ [Print (error_report (json_body response)
                                      (JStr ''Failed to get job status''))])
             else (case json_body response of
                     Inl e \<Rightarrow> (1, tr1 @ [Print (handler e)])
                   | Inr job \<Rightarrow>
                       (case py_item job ''status'' of
                          Inl e \<Rightarrow> (1, tr1 @ [Print (handler e)])
                        | Inr status \<Rightarrow>
                            if status = JStr ''queued'' then (0, tr1 @ [Print JobQueued])
                            else if status = JStr ''processing''
                            then (0, tr1 @ [Print JobProcessing])
                            else if status = JStr ''completed''
                            then (case display_job_details job of
                                    Inl e \<Rightarrow> (1, tr1 @ [Print ConversionComplete,
                                                      Print (handler e)])
                                  | Inr ms \<Rightarrow> (0, tr1 @ Print ConversionComplete # map Print ms))
                            else if status = JStr ''failed''
                            then (if UnexpectedError \<in> set (error_lines job) then 1 else 0,
                                  tr1 @ Print ConversionFailed # map Print (error_lines job))
                            else if status = JStr ''cancelled''
                            then (0, tr1 @ [Print JobCancelled])
                            else (0, tr1))))"

definition check_status :: "job_env \<Rightarrow> string \<Rightarrow> bool \<Rightarrow> nat \<times> event list" where
  "check_status env job_id watching =
     (if key_missing (API_KEY env) then (1, [Print ApiKeyNotSet])
      else if watching then watch (job_reply env) (JStr job_id) JNull 0 []
      else check_once (job_reply env 0) (JStr job_id))"

section \<open>job-management/download-result.py\<close>

text \<open>
  The \<open>except\<close> clauses of \<open>download_result\<close> (lines 174-189), reached with the
  value \<open>output_file\<close> has at that moment and the files as the trace has left them.
  All exit with status 1; the keyboard interrupt first removes the output file when
  it is named and exists.
\<close>

definition on_exception ::
  "(string \<Rightarrow> string option) \<Rightarrow> string option \<Rightarrow> exn \<Rightarrow> event list \<Rightarrow> nat \<times> event list"
where
  "on_exception fs output_file e tr =
     (if e = RequestException then (1, tr @ [Print RequestError])
      else if e = KeyboardInterrupt
      then (case output_file of
              None \<Rightarrow> (1, tr @ [Print CancelledByUser])
            | Some p \<Rightarrow>
                if p \<noteq> [] \<and> files_after tr fs p \<noteq> None
                then (1, tr @ [Print CancelledByUser, Unlink p, Print PartialFileDeleted])
                else (1, tr @ [Print CancelledByUser]))
      else if e = IOError then (1, tr @ [Print FileWriteError])
      else (1, tr @ [Print UnexpectedError]))"

text \<open>
  Lines 108-120, the file information: \<open>.upper()\<close> needs a string, the size a
  number.
\<close>

definition file_information :: "json \<Rightarrow> json \<Rightarrow> exn option" where
  "file_information job result =
     (case py_get result ''format'' (JStr ''N/A'') of
        Inl e \<Rightarrow> Some e
      | Inr (JStr f) \<Rightarrow>
          (case py_get result ''file_size'' (JNum 0) of
             Inl e \<Rightarrow> Some e
           | Inr sz \<Rightarrow>
               (case format_file_size sz of
                  Some e \<Rightarrow> Some e
                | None \<Rightarrow>
                    (case py_get job ''source_format'' JNull of
                       Inl e \<Rightarrow> Some e
                     | Inr (JStr s) \<Rightarrow> None
                     | Inr src \<Rightarrow> if truthy src then Some AttributeError else None)))
      | Inr other \<Rightarrow> Some AttributeError)"

text \<open>
  Lines 122-133, the output file name when \<open>--output\<close> is missing or empty:
  \<open>f"{original_name}_{job_id[:8]}.{format_ext}"\<close>. The format was printed with
  \<open>.upper()\<close> above, so here it is a string or absent; the stem is taken of a
  truthy \<open>original_filename\<close>, which must be a string.
\<close>

definition default_output :: "job_env \<Rightarrow> string \<Rightarrow> json \<Rightarrow> json \<Rightarrow> exn + string" where
  "default_output env job_id job result =
     (case py_get result ''format'' (JStr ''bin'') of
        Inl e \<Rightarrow> Inl e
      | Inr (JStr format_ext) \<Rightarrow>
          (case py_get job ''metadata'' (JObj []) of
             Inl e \<Rightarrow> Inl e
           | Inr (JObj md) \<Rightarrow>
               (case map_of md ''original_filename'' of
                  None \<Rightarrow> Inr (''converted'' @ ''_'' @ take 8 job_id @ ''.'' @ format_ext)
                | Some (JStr n) \<Rightarrow>
                    Inr ((if n \<noteq> [] then stem env n else ''converted'') @ ''_'' @
                         take 8 job_id @ ''.'' @ format_ext)
                | Some v \<Rightarrow>
                    if truthy v then Inl TypeError
                    else Inr (''converted'' @ ''_'' @ take 8 job_id @ ''.'' @ format_ext))
           | Inr other \<Rightarrow> Inr (''converted'' @ ''_'' @ take 8 job_id @ ''.'' @ format_ext))
      | Inr other \<Rightarrow> Inl AttributeError)"

text \<open>
  Lines 80-133, once the job descriptor is chosen: the status must be
  \<open>completed\<close> and the result must have a download URL; then the name of the output
  file is settled. The value is the exit, or the name, the URL and the trace.
\<close>

definition prepare_download ::
  "job_env \<Rightarrow> string \<Rightarrow> json \<Rightarrow> event list \<Rightarrow> (nat \<times> event list) + (string \<times> json \<times> event list)"
where
  "prepare_download env job_id job tr =
     (case py_get job ''status'' (JStr ''unknown'') of
        Inl e \<Rightarrow> Inl (on_exception (files env) (output_opt env) e tr)
      | Inr status \<Rightarrow>
          if status \<noteq> JStr ''completed''
          then (if status = JStr ''failed''
                then (case py_get job ''error'' JNull of
                        Inl e \<Rightarrow> Inl (on_exception (files env) (output_opt env) e
                                        (tr @ [Print (FileNotAvailable status)]))
                      | Inr err \<Rightarrow>
                          if truthy err
                          then (case py_get err ''message'' (JStr ''Unknown error'') of
                                  Inl e \<Rightarrow> Inl (on_exception (files env) (output_opt env) e
                                                  (tr @ [Print (FileNotAvailable status)]))
                                | Inr m \<Rightarrow> Inl (1, tr @ [Print (FileNotAvailable status),
                                                          Print (JobError m)]))
                          else Inl (1, tr @ [Print (FileNotAvailable status)]))
                else Inl (1, tr @ [Print (FileNotAvailable status)]))
          else (case py_get job ''result'' (JObj []) of
                  Inl e \<Rightarrow> Inl (on_exception (files env) (output_opt env) e tr)
                | Inr result \<Rightarrow>
                    (case py_get result ''download_url'' JNull of
                       Inl e \<Rightarrow> Inl (on_exception (files env) (output_opt env) e tr)
                     | Inr url \<Rightarrow>
                         if \<not> truthy url then Inl (1, tr @ [Print NoDownloadUrl])
                         else (case file_information job result of
                                 Some e \<Rightarrow> Inl (on_exception (files env) (output_opt env) e tr)
                               | None \<Rightarrow>
                                   (case output_opt env of
                                      Some p \<Rightarrow>
                                        if p \<noteq> []
                                        then Inr (p, url, tr @ [Print FileInformation])
                                        else (case default_output env job_id job result of
                                                Inl e \<Rightarrow> Inl (on_exception (files env)
                                                                (output_opt env) e
                                                                (tr @ [Print FileInformation]))
                                              | Inr name \<Rightarrow>
                                                  Inr (name, url, tr @ [Print FileInformation]))
                                    | None \<Rightarrow>
                                        (case default_output env job_id job result of
                                           Inl e \<Rightarrow> Inl (on_exception (files env)
                                                           (output_opt env) e
                                                           (tr @ [Print FileInformation]))
                                         | Inr name \<Rightarrow>
                                             Inr (name, url, tr @ [Print FileInformation])))))))"

text \<open>
  Lines 135-172, the download into \<open>output_file\<close>: the request, the status test,
  the stream written to the file, the size check (a mismatch only warns).
\<close>

definition download_to :: "job_env \<Rightarrow> string \<Rightarrow> json \<Rightarrow> event list \<Rightarrow> nat \<times> event list" where
  "download_to env output_file url tr =
     (let tr1 = tr @ [GetUrl url]
      in case download_reply env of
           DownloadRaises e \<Rightarrow> on_exception (files env) (Some output_file) e tr1
         | Download d \<Rightarrow>
             if dl_status d \<noteq> 200 then (1, tr1 @ [Print DownloadFailed])
             else (case content_length d of
                     Inl e \<Rightarrow> on_exception (files env) (Some output_file) e tr1
                   | Inr total_size \<Rightarrow>
                       (case open_raises env of
                          Some e \<Rightarrow> on_exception (files env) (Some output_file) e tr1
                        | None \<Rightarrow>
                            (case write_chunks output_file (chunks d)
                                    (tr1 @ [OpenWrite output_file]) of
                               (Some e, tr2) \<Rightarrow>
                                 on_exception (files env) (Some output_file) e tr2
                             | (None, tr2) \<Rightarrow>
                                 (0, tr2 @ Print DownloadComplete #
                                     (if (case files_after tr2 (files env) output_file of
                                            Some b \<Rightarrow> int (length b) \<noteq> total_size
                                          | None \<Rightarrow> True) \<and> total_size > 0
                                      then [Print SizeMismatch] else []))))))"

text \<open>
  Lines 67-78, the choice of the job descriptor: the first item of a list (none when
  the list is empty), the document itself otherwise.
\<close>

fun choose_job :: "json \<Rightarrow> json option" where
  "choose_job (JArr []) = None"
| "choose_job (JArr (j # rest)) = Some j"
| "choose_job job_response = Some job_response"

text \<open>
  \<open>download_result\<close> (lines 31-189): the job request, the choice of the job
  descriptor, then the two parts above.
\<close>

definition download_result :: "job_env \<Rightarrow> string \<Rightarrow> nat \<times> event list" where
  "download_result env job_id =
     (if key_missing (API_KEY env) then (1, [Print ApiKeyNotSet])
      else
        let tr1 = [GetJob (JStr job_id)]
        in case job_reply env 0 of
             Raises e \<Rightarrow> on_exception (files env) (output_opt env) e tr1
           | Reply response \<Rightarrow>
               if status_code response \<ge> 400
               then (case error_message (json_body response) (JStr ''Job not found'') of
                       Inl e \<Rightarrow> on_exception (files env) (output_opt env) e tr1
                     | Inr m \<Rightarrow> (1, tr1 @ [Print (ApiError m)]))
               else (case json_body response of
                       Inl e \<Rightarrow> on_exception (files env) (output_opt env) e tr1
                     | Inr job_response \<Rightarrow>
                         (case choose_job job_response of
                            None \<Rightarrow> (1, tr1 @ [Print EmptyResponse])
                          | Some job \<Rightarrow>
                              (case prepare_download env job_id job tr1 of
                                 Inl x \<Rightarrow> x
                               | Inr (output_file, url, tr2) \<Rightarrow>
                                   download_to env output_file url tr2))))"

section \<open>webhook-handler/webhook-receiver.py\<close>

text \<open>
  \<open>hmac.compare_digest\<close> on two \<open>str\<close> arguments: it raises TypeError unless both
  are ASCII, and otherwise tells whether they are equal (in time independent of the
  contents, which this model does not measure). A header value reaches the handler
  decoded as Latin-1, one character per byte.
\<close>

definition is_ascii :: "string \<Rightarrow> bool" where
  "is_ascii s = list_all (\<lambda>c. (of_char c :: nat) < 128) s"

definition compare_digest :: "string \<Rightarrow> string \<Rightarrow> exn + bool" where
  "compare_digest a b = (if is_ascii a \<and> is_ascii b then Inr (a = b) else Inl TypeError)"

text \<open>\<open>.hexdigest()\<close>: two lower-case hexadecimal digits for each byte of the digest.\<close>

definition hex_digit :: "nat \<Rightarrow> char" where
  "hex_digit n = ''0123456789abcdef'' ! (n mod 16)"

definition hexdigest :: "string \<Rightarrow> string" where
  "hexdigest digest =
     concat (map (\<lambda>c. [hex_digit (of_char c div 16), hex_digit (of_char c mod 16)]) digest)"

text \<open>
  What the receiver takes from outside: the configured secret (empty when unset;
  \<open>.encode()\<close> gives its bytes), and three library functions,
  \<open>hmac.new(key, msg, hashlib.sha256).digest()\<close>, \<open>json.loads\<close> on the raw body, and
  \<open>str\<close> on a parsed value (for the f-string of the unknown-event message).
\<close>

record webhook_env =
  WEBHOOK_SECRET :: string
  hmac_sha256 :: "string \<Rightarrow> string \<Rightarrow> string"
  loads :: "string \<Rightarrow> exn + json"
  py_str :: "json \<Rightarrow> string"

text \<open>\<open>verify_signature\<close> (lines 37-48).\<close>

definition verify_signature :: "webhook_env \<Rightarrow> string \<Rightarrow> string \<Rightarrow> exn + bool" where
  "verify_signature env payload signature =
     (if WEBHOOK_SECRET env = [] then Inr True
      else compare_digest (hexdigest (hmac_sha256 env (WEBHOOK_SECRET env) payload)) signature)"

text \<open>
  \<open>process_webhook_event\<close> (lines 51-142): the acknowledgement for each event type.
  \<open>.get\<close> on the event, and on its \<open>result\<close>, \<open>error\<close> or \<open>progress\<close>, needs a dict.
\<close>

definition process_webhook_event :: "webhook_env \<Rightarrow> json \<Rightarrow> exn + json" where
  "process_webhook_event env event_data =
     (case py_get event_data ''event'' JNull of
        Inl e \<Rightarrow> Inl e
      | Inr event_type \<Rightarrow>
          (case py_get event_data ''job_id'' JNull of
             Inl e \<Rightarrow> Inl e
           | Inr job_id \<Rightarrow>
               if event_type = JStr ''conversion.completed''
               then (case py_get event_data ''result'' (JObj []) of
                       Inl e \<Rightarrow> Inl e
                     | Inr result \<Rightarrow>
                         (case py_get result ''download_url'' JNull of
                            Inl e \<Rightarrow> Inl e
                          | Inr url \<Rightarrow>
                              Inr (JObj [(''status'', JStr ''success''),
                                         (''message'', JStr ''Conversion completed event processed''),
                                         (''job_id'', job_id),
                                         (''download_url'', url)])))
               else if event_type = JStr ''conversion.failed''
               then (case py_get event_data ''error'' (JObj []) of
                       Inl e \<Rightarrow> Inl e
                     | Inr error \<Rightarrow>
                         (case py_get error ''message'' JNull of
                            Inl e \<Rightarrow> Inl e
                          | Inr m \<Rightarrow>
                              Inr (JObj [(''status'', JStr ''failed''),
                                         (''message'', JStr ''Conversion failed event processed''),
                                         (''job_id'', job_id),
                                         (''error'', m)])))
               else if event_type = JStr ''conversion.progress''
               then (case py_get event_data ''progress'' (JObj []) of
                       Inl e \<Rightarrow> Inl e
                     | Inr progress \<Rightarrow>
                         (case py_get progress ''percentage'' (JNum 0) of
                            Inl e \<Rightarrow> Inl e
                          | Inr pc \<Rightarrow>
                              Inr (JObj [(''status'', JStr ''progress''),
                                         (''message'', JStr ''Progress update processed''),
                                         (''job_id'', job_id),
                                         (''progress'', pc)])))
               else if event_type = JStr ''upload.completed''
               then Inr (JObj [(''status'', JStr ''uploaded''),
                               (''message'', JStr ''Upload completed event processed''),
                               (''job_id'', job_id)])
               else Inr (JObj [(''status'', JStr ''unknown''),
                               (''message'', JStr (''Unknown event type: '' @ py_str env event_type)),
                               (''job_id'', job_id)])))"

text \<open>
  \<open>webhook\<close> (lines 145-177): the status code and the JSON body of the response.
  \<open>header\<close> is the \<open>X-Webhook-Signature\<close> header, when the request has one. Only
  \<open>json.JSONDecodeError\<close> gives 400; every other exception inside the \<open>try\<close> gives
  500.
\<close>

definition error_body :: "string \<Rightarrow> json" where
  "error_body m = JObj [(''error'', JStr m)]"

definition webhook :: "webhook_env \<Rightarrow> string \<Rightarrow> string option \<Rightarrow> nat \<times> json" where
  "webhook env raw_data header =
     (let signature = (case header of None \<Rightarrow> [] | Some s \<Rightarrow> s)
      in case (if WEBHOOK_SECRET env \<noteq> [] then verify_signature env raw_data signature
               else Inr True) of
           Inl e \<Rightarrow> (500, error_body ''Internal server error'')
         | Inr False \<Rightarrow> (401, error_body ''Invalid signature'')
         | Inr True \<Rightarrow>
             (case loads env raw_data of
                Inl e \<Rightarrow>
                  if e = JSONDecodeError then (400, error_body ''Invalid JSON'')
                  else (500, error_body ''Internal server error'')
              | Inr event_data \<Rightarrow>
                  (case process_webhook_event env event_data of
                     Inl e \<Rightarrow> (500, error_body ''Internal server error'')
                   | Inr result \<Rightarrow> (200, result))))"

text \<open>Example receivers: a stand-in for the keyed digest, and a parser that knows one body.\<close>

definition stand_in_mac :: "string \<Rightarrow> string \<Rightarrow> string" where
  "stand_in_mac key msg = take 32 (key @ msg @ replicate 32 CHR ''0'')"

definition failed_event_body :: string where
  "failed_event_body = ''{\"event\":\"conversion.failed\",\"job_id\":\"j1\",\"error\":{\"message\":\"bad input\",\"code\":\"E1\"}}''"

definition failed_event :: json where
  "failed_event =
     JObj [(''event'', JStr ''conversion.failed''),
           (''job_id'', JStr ''j1''),
           (''error'', JObj [(''message'', JStr ''bad input''), (''code'', JStr ''E1'')])]"

definition example_loads :: "string \<Rightarrow> exn + json" where
  "example_loads raw = (if raw = failed_event_body then Inr failed_event else Inl JSONDecodeError)"

definition example_receiver :: "string \<Rightarrow> webhook_env" where
  "example_receiver secret =
     \<lparr>WEBHOOK_SECRET = secret, hmac_sha256 = stand_in_mac, loads = example_loads,
      py_str = (\<lambda>v. ''?'')\<rparr>"

text \<open>
  Example job runs: a key, no files on disk, \<open>--output out.pdf\<close>, a stream that
  delivers \<open>abc\<close> and is then interrupted from the keyboard; the status requests are
  answered as \<open>srv\<close> says.
\<close>

definition completed_job :: json where
  "completed_job =
     JObj [(''job_id'', JStr ''j1''),
           (''status'', JStr ''completed''),
           (''result'', JObj [(''download_url'', JStr ''https://files/j1''),
                              (''format'', JStr ''pdf''),
                              (''file_size'', JNum 6),
                              (''expires_at'', JStr ''tomorrow'')])]"

definition interrupted_stream :: download_reply where
  "interrupted_stream =
     Download \<lparr>dl_status = 200, content_length = Inr 6,
               chunks = [Inr ''abc'', Inl KeyboardInterrupt, Inr ''def'']\<rparr>"

definition example_env :: "(nat \<Rightarrow> reply) \<Rightarrow> job_env" where
  "example_env srv =
     \<lparr>API_KEY = Some ''key'',
      job_reply = srv,
      download_reply = interrupted_stream,
      open_raises = None,
      files = (\<lambda>p. None),
      output_opt = Some ''out.pdf'',
      answer = Inr ''n'',
      default_name = ''converted_0.pdf'',
      stem = (\<lambda>p. p)\<rparr>"

text \<open>A stream that delivers \<open>abc\<close> and \<open>def\<close> and ends.\<close>

definition complete_stream :: download_reply where
  "complete_stream =
     Download \<lparr>dl_status = 200, content_length = Inr 6, chunks = [Inr ''abc'', Inr ''def'']\<rparr>"

text \<open>\<open>isinstance(x, list)\<close>.\<close>

fun is_list :: "json \<Rightarrow> bool" where
  "is_list (JArr xs) = True"
| "is_list _ = False"

section \<open>Reading the service's answers\<close>

text \<open>
  What a status request yields when nothing goes wrong: the call returns, the status
  code is below 400, the body parses and \<open>get_status\<close> reads a status from it. The
  value is that status and the job descriptor.
\<close>

definition reported :: "(json \<Rightarrow> exn + json) \<Rightarrow> reply \<Rightarrow> (json \<times> json) option" where
  "reported get_status rep =
     (case rep of
        Raises e \<Rightarrow> None
      | Reply response \<Rightarrow>
          if status_code response \<ge> 400 then None
          else (case json_body response of
                  Inl e \<Rightarrow> None
                | Inr js \<Rightarrow>
                    (case get_status js of
                       Inl e \<Rightarrow> None
                     | Inr st \<Rightarrow> Some (st, js))))"

definition reports_active :: "(json \<Rightarrow> exn + json) \<Rightarrow> reply \<Rightarrow> bool" where
  "reports_active get_status rep =
     (case reported get_status rep of None \<Rightarrow> False | Some (st, js) \<Rightarrow> active st)"

text \<open>The terminal states of a job.\<close>

definition terminal :: "json \<Rightarrow> bool" where
  "terminal status = (status \<in> set [JStr ''completed'', JStr ''failed'', JStr ''cancelled''])"

definition reports_unfinished :: "reply \<Rightarrow> bool" where
  "reports_unfinished rep =
     (case reported status_item rep of None \<Rightarrow> False | Some (st, js) \<Rightarrow> \<not> terminal st)"

section \<open>Properties of the chunked upload\<close>

subsection \<open>The chunk loop\<close>

lemma file_read_ok:
  "0 \<le> c \<Longrightarrow> c < 9223372036854775775 \<Longrightarrow>
   file_read c fl = Inr (take (nat c) fl, drop (nat c) fl)"
  by (simp add: file_read_def)

lemma file_read_too_large:
  "9223372036854775775 \<le> c \<Longrightarrow> file_read c fl = Inl OverflowError"
  by (simp add: file_read_def)

lemma upload_chunks_step:
  assumes "0 \<le> c" "c < 9223372036854775775" "rd idx = None" "acknowledged (srv idx)"
  shows "upload_chunks rd srv sid c (Suc n) idx fl tr =
     upload_chunks rd srv sid c n (Suc idx) (drop (nat c) fl)
       (tr @ [PostChunk sid idx (take (nat c) fl)])"
proof -
  obtain r where r: "srv idx = Reply r" "status_code r < 400"
    using assms(4) by (cases "srv idx") auto
  show ?thesis using r assms(1-3) by (simp add: file_read_ok)
qed

lemma posts_shift:
  "map (\<lambda>i. PostChunk sid (idx + i) (take cs (drop (i * cs) fl))) [0..<Suc k]
     = PostChunk sid idx (take cs fl) #
       map (\<lambda>i. PostChunk sid (Suc idx + i) (take cs (drop (i * cs) (drop cs fl)))) [0..<k]"
  by (simp add: upt_conv_Cons map_Suc_upt[symmetric] add.commute del: upt_Suc)

text \<open>As long as the reads succeed and the chunks are acknowledged the loop goes on.\<close>

lemma upload_chunks_prefix:
  assumes c: "0 \<le> c" "c < 9223372036854775775"
  shows "k \<le> n \<Longrightarrow> \<forall>i<k. rd (idx + i) = None \<and> acknowledged (srv (idx + i)) \<Longrightarrow>
     upload_chunks rd srv sid c n idx fl tr =
     upload_chunks rd srv sid c (n - k) (idx + k) (drop (k * nat c) fl)
       (tr @ map (\<lambda>i. PostChunk sid (idx + i) (take (nat c) (drop (i * nat c) fl))) [0..<k])"
proof (induction k arbitrary: n idx fl tr)
  case 0
  then show ?case by simp
next
  case (Suc k)
  obtain m where n: "n = Suc m" using Suc.prems(1) by (cases n) simp_all
  have km: "k \<le> m" using Suc.prems(1) n by simp
  have first: "rd idx = None" "acknowledged (srv idx)" using Suc.prems(2) by force+
  have rest: "\<forall>i<k. rd (Suc idx + i) = None \<and> acknowledged (srv (Suc idx + i))"
    using Suc.prems(2) by force
  show ?case
    unfolding n upload_chunks_step[where rd=rd and srv=srv and idx=idx, OF c first]
      Suc.IH[OF km rest] posts_shift
    by (simp add: add.commute)
qed

lemma upload_chunks_ok:
  assumes "0 \<le> c" "c < 9223372036854775775"
    and "\<forall>i<n. rd (idx + i) = None \<and> acknowledged (srv (idx + i))"
  shows "upload_chunks rd srv sid c n idx fl tr =
     Inr (drop (n * nat c) fl,
          tr @ map (\<lambda>i. PostChunk sid (idx + i) (take (nat c) (drop (i * nat c) fl))) [0..<n])"
  using upload_chunks_prefix[where rd=rd and srv=srv and idx=idx and k=n and n=n,
      OF assms(1,2) order_refl assms(3), of sid fl tr] by simp

lemma upload_chunks_stop:
  assumes c: "0 \<le> c" "c < 9223372036854775775"
    and k: "k < n"
    and before: "\<forall>i<k. rd (idx + i) = None \<and> acknowledged (srv (idx + i))"
    and rd: "rd (idx + k) = None"
    and bad: "\<not> acknowledged (srv (idx + k))"
  shows "\<exists>msgs. upload_chunks rd srv sid c n idx fl tr =
     Inl (1, tr @ map (\<lambda>i. PostChunk sid (idx + i) (take (nat c) (drop (i * nat c) fl))) [0..<Suc k]
             @ map Print msgs)"
proof -
  let ?post = "\<lambda>i. PostChunk sid (idx + i) (take (nat c) (drop (i * nat c) fl))"
  obtain m where m: "n - k = Suc m" using k by (cases "n - k") simp_all
  have kn: "k \<le> n" using k by simp
  note pre = upload_chunks_prefix[where rd=rd and srv=srv and idx=idx and k=k and n=n,
      OF c kn before, of sid fl tr, unfolded m]
  show ?thesis
  proof (cases "srv (idx + k)")
    case (Raises e)
    then have "upload_chunks rd srv sid c n idx fl tr =
        Inl (1, tr @ map ?post [0..<Suc k] @ map Print [handler e])"
      unfolding pre using c rd by (simp add: file_read_ok)
    then show ?thesis by blast
  next
    case (Reply r)
    then have "status_code r \<ge> 400" using bad by simp
    then have "upload_chunks rd srv sid c n idx fl tr =
        Inl (1, tr @ map ?post [0..<Suc k] @
           map Print [ChunkFailed (idx + k + 1), error_report (json_body r) (JStr ''Unknown error'')])"
      unfolding pre using c rd Reply by (simp add: file_read_ok)
    then show ?thesis by blast
  qed
qed

text \<open>A read that fails ends the loop before the chunk is posted.\<close>

lemma upload_chunks_read_fails:
  assumes c: "0 \<le> c"
    and k: "k < n"
    and before: "\<forall>i<k. (c < 9223372036854775775 \<and> rd (idx + i) = None)
                     \<and> acknowledged (srv (idx + i))"
    and bad: "\<not> (c < 9223372036854775775 \<and> rd (idx + k) = None)"
  shows "\<exists>msgs. upload_chunks rd srv sid c n idx fl tr =
     Inl (1, tr @ map (\<lambda>i. PostChunk sid (idx + i) (take (nat c) (drop (i * nat c) fl))) [0..<k]
             @ map Print msgs)"
proof -
  let ?post = "\<lambda>i. PostChunk sid (idx + i) (take (nat c) (drop (i * nat c) fl))"
  obtain m where m: "n - k = Suc m" using k by (cases "n - k") simp_all
  have kn: "k \<le> n" using k by simp
  show ?thesis
  proof (cases "c < 9223372036854775775")
    case True
    have before': "\<forall>i<k. rd (idx + i) = None \<and> acknowledged (srv (idx + i))"
      using before by simp
    obtain e where e: "rd (idx + k) = Some e" using bad True by auto
    note pre = upload_chunks_prefix[where rd=rd and srv=srv and idx=idx and k=k and n=n,
        OF c True kn before', of sid fl tr, unfolded m]
    have "upload_chunks rd srv sid c n idx fl tr =
        Inl (1, tr @ map ?post [0..<k] @ map Print [handler e])"
      unfolding pre using c True e by (simp add: file_read_ok)
    then show ?thesis by blast
  next
    case False
    then have k0: "k = 0" using before by (cases k) auto
    obtain m' where n: "n = Suc m'" using k by (cases n) simp_all
    have "upload_chunks rd srv sid c n idx fl tr =
        Inl (1, tr @ map ?post [0..<k] @ map Print [handler OverflowError])"
      unfolding n k0 using False by (simp add: file_read_too_large)
    then show ?thesis by blast
  qed
qed

lemma concat_chunks:
  "concat (map (\<lambda>i. take cs (drop (i * cs) fl)) [0..<n]) = take (n * cs) fl"
proof (induction n)
  case 0
  then show ?case by simp
next
  case (Suc n)
  have "Suc n * cs = n * cs + cs" by simp
  then have "take (Suc n * cs) fl = take (n * cs) fl @ take cs (drop (n * cs) fl)"
    by (simp only: take_add)
  with Suc show ?case by simp
qed

lemma ceil_bounds:
  fixes F C q :: int
  assumes C: "0 < C" and q: "q = \<lceil>real_of_int F / real_of_int C\<rceil>"
  shows "F \<le> q * C \<and> (q - 1) * C < F \<and>
         F - (q - 1) * C = (if F mod C = 0 then C else F mod C)"
proof -
  define m where "m = (- F) mod C"
  have q': "q = - (- F div C)" unfolding q by (rule ceiling_divide_eq_div)
  have "(- F div C) * C + m = - F" unfolding m_def by simp
  then have qc: "q * C = F + m" unfolding q' by (simp add: algebra_simps)
  have m0: "0 \<le> m" and mC: "m < C" using C unfolding m_def by simp_all
  have fm: "F mod C = (if m = 0 then 0 else C - m)"
    using zmod_zminus1_eq_if[of "- F" C] unfolding m_def by simp
  have q1: "(q - 1) * C = F + m - C" using qc by (simp add: algebra_simps)
  have a: "F \<le> q * C" unfolding qc using m0 by simp
  have b: "(q - 1) * C < F" unfolding q1 using mC by simp
  have c: "F - (q - 1) * C = (if F mod C = 0 then C else F mod C)"
    unfolding q1 fm using m0 mC by simp
  from a b c show ?thesis by blast
qed

text \<open>
  Line 73 on a chunk size that a read accepts: the quotient is zero or far above the
  underflow threshold, so the count is the exact ceiling.
\<close>

lemma total_chunks_exact:
  assumes F: "0 \<le> F" and C: "0 < C" "C < 9223372036854775775"
  shows "total_chunks F C = \<lceil>real_of_int F / real_of_int C\<rceil>"
proof (cases "F = 0")
  case True
  then show ?thesis by (simp add: total_chunks_def)
next
  case False
  then have F1: "1 \<le> real_of_int F" using F by simp
  have Cr: "0 < real_of_int C" using C(1) by simp
  have "real_of_int C < 9223372036854775775" using C(2) by simp
  also have "(9223372036854775775::real) < 2 ^ 1075" by simp
  finally have lt: "real_of_int C < 2 ^ 1075" .
  have "1 / 2 ^ 1075 < 1 / real_of_int C"
    using lt Cr by (simp add: frac_less2)
  also have "1 / real_of_int C \<le> real_of_int F / real_of_int C"
    using F1 Cr by (simp add: divide_right_mono)
  finally have "\<not> real_of_int F / real_of_int C \<le> 1 / 2 ^ 1075" by simp
  then show ?thesis unfolding total_chunks_def Let_def by (simp only: simp_thms if_False)
qed

lemma no_chunks_for_negative_size:
  assumes "C < 0"
  shows "nat (total_chunks (int (length fl)) C) = 0"
proof -
  define quotient where "quotient = real_of_int (int (length fl)) / real_of_int C"
  have q: "quotient \<le> 0"
    unfolding quotient_def using assms by (intro divide_nonneg_neg) simp_all
  then have "\<not> (0 < quotient \<and> quotient \<le> 1 / 2 ^ 1075)" by simp
  then have "total_chunks (int (length fl)) C = \<lceil>quotient\<rceil>"
    unfolding total_chunks_def Let_def quotient_def[symmetric] by (simp only: if_False)
  moreover have "\<lceil>quotient\<rceil> \<le> 0" using q by simp
  ultimately show ?thesis by simp
qed

lemma chunk_bodies_append: "chunk_bodies (a @ b) = chunk_bodies a @ chunk_bodies b"
  by (induction a rule: chunk_bodies.induct) simp_all

lemma chunk_bodies_posts:
  "chunk_bodies (map (\<lambda>i. PostChunk sid (f i) (g i)) xs) = map g xs"
  by (induction xs) simp_all

lemma chunk_bodies_prints: "chunk_bodies (map Print ms) = []"
  by (induction ms) simp_all

lemma requests_append: "requests (a @ b) = requests a @ requests b"
  by (simp add: requests_def)

lemma requests_posts:
  "requests (map (\<lambda>i. PostChunk sid (f i) (g i)) xs) = map (\<lambda>i. PostChunk sid (f i) (g i)) xs"
  by (induction xs) (simp_all add: requests_def)

lemma requests_prints: "requests (map Print ms) = []"
  by (induction ms) (simp_all add: requests_def)

lemma complete_upload_trace:
  "\<exists>ms. trace_of (complete_upload rep sid tr) =
     tr @ [Print AllChunksUploaded, PostComplete sid] @ map Print ms"
proof (cases rep)
  case (Raises e)
  then have "trace_of (complete_upload rep sid tr) =
     tr @ [Print AllChunksUploaded, PostComplete sid] @ map Print [handler e]"
    by (simp add: complete_upload_def)
  then show ?thesis by blast
next
  case (Reply r)
  show ?thesis
  proof (cases "status_code r \<ge> 400")
    case True
    then have "trace_of (complete_upload rep sid tr) =
       tr @ [Print AllChunksUploaded, PostComplete sid] @
       map Print [error_report (json_body r) (JStr ''Failed to complete upload'')]"
      using Reply by (simp add: complete_upload_def)
    then show ?thesis by blast
  next
    case False
    show ?thesis
    proof (cases "json_body r")
      case (Inl e)
      then have "trace_of (complete_upload rep sid tr) =
         tr @ [Print AllChunksUploaded, PostComplete sid] @ map Print [handler e]"
        using Reply False by (simp add: complete_upload_def)
      then show ?thesis by blast
    next
      case (Inr job)
      show ?thesis
      proof (cases "py_item job ''job_id''")
        case (Inl e)
        then have "trace_of (complete_upload rep sid tr) =
           tr @ [Print AllChunksUploaded, PostComplete sid] @ map Print [handler e]"
          using Reply False Inr by (simp add: complete_upload_def)
        then show ?thesis by blast
      next
        case (Inr job_id)
        then have "trace_of (complete_upload rep sid tr) =
           tr @ [Print AllChunksUploaded, PostComplete sid] @ map Print [UploadComplete]"
          using Reply False \<open>json_body r = Inr job\<close> by (simp add: complete_upload_def)
        then show ?thesis by blast
      qed
    qed
  qed
qed

text \<open>The session once the init call has answered with a session identifier.\<close>

lemma upload_session_created:
  assumes "init_reply inp = Reply r" "status_code r < 400" "json_body r = Inr session"
    "py_item session ''session_id'' = Inr sid"
  shows "upload_session inp fl c n tr =
     (case open_input_raises inp of
        Some e \<Rightarrow> Inl (1, (tr @ [PostInit (int (length fl)) n c]) @ [Print (handler e)])
      | None \<Rightarrow>
          (case upload_chunks (read_raises inp) (chunk_reply inp) sid c (nat n) 0 fl
                  (tr @ [PostInit (int (length fl)) n c]) of
             Inl x \<Rightarrow> Inl x
           | Inr (rest, tr2) \<Rightarrow> complete_upload (complete_reply inp) sid tr2))"
  using assms by (simp add: upload_session_def Let_def split: option.splits)

lemma upload_session_opened:
  assumes "init_reply inp = Reply r" "status_code r < 400" "json_body r = Inr session"
    "py_item session ''session_id'' = Inr sid" "open_input_raises inp = None"
  shows "upload_session inp fl c n tr =
     (case upload_chunks (read_raises inp) (chunk_reply inp) sid c (nat n) 0 fl
             (tr @ [PostInit (int (length fl)) n c]) of
        Inl x \<Rightarrow> Inl x
      | Inr (rest, tr2) \<Rightarrow> complete_upload (complete_reply inp) sid tr2)"
  using assms by (simp add: upload_session_def)

lemma upload_large_file_opened:
  assumes "\<not> key_missing (API_KEY inp)" "input_file inp = Some fl"
    "int (length fl) \<le> 2147483648" "determine_chunk_size (chunk_size_opt inp) \<noteq> 0"
  shows "upload_large_file inp =
     upload_session inp fl (determine_chunk_size (chunk_size_opt inp) * 1048576)
       (total_chunks (int (length fl)) (determine_chunk_size (chunk_size_opt inp) * 1048576))
       (chunk_size_warning (chunk_size_opt inp) @ [Print Banner])"
  using assms by (simp add: upload_large_file_def Let_def)

lemma requests_warning: "requests (chunk_size_warning opt) = []"
  by (cases opt) (simp_all add: requests_def)

lemma chunk_bodies_warning: "chunk_bodies (chunk_size_warning opt) = []"
  by (cases opt) simp_all

subsection \<open>Chunk count and chunk sizes\<close>

text \<open>
  Claim C3, as amended. With a chunk size of at least 1 MiB and below 8796093022208 MiB
  (\<open>2 ^ 63\<close> bytes, where the read refuses the size), a file under the cap that opens,
  and a service that creates the session, when every chunk is read without error and
  acknowledged, the chunk count announced in the init call and the number of chunk
  bodies posted are both the ceiling of file size over chunk size, the concatenation
  of the bodies is the file, every body but the last has the chunk size, the last has
  the remainder (or the chunk size when it divides the file size), and the lengths
  add up to the file size.
\<close>

theorem chunked_upload_sends_whole_file:
  assumes key: "\<not> key_missing (API_KEY inp)"
    and inp: "input_file inp = Some fl"
    and cap: "int (length fl) \<le> 2147483648"
    and mb: "1 \<le> determine_chunk_size (chunk_size_opt inp)"
      "determine_chunk_size (chunk_size_opt inp) < 8796093022208"
    and opened: "open_input_raises inp = None"
    and init: "init_reply inp = Reply r" "status_code r < 400" "json_body r = Inr session"
      "py_item session ''session_id'' = Inr sid"
    and acks: "\<forall>i. int i < \<lceil>real (length fl) / real_of_int (determine_chunk_size (chunk_size_opt inp) * 1048576)\<rceil>
                 \<longrightarrow> read_raises inp i = None \<and> acknowledged (chunk_reply inp i)"
  shows "let C = determine_chunk_size (chunk_size_opt inp) * 1048576;
             F = int (length fl);
             bs = chunk_bodies (trace_of (upload_large_file inp))
         in PostInit F \<lceil>real_of_int F / real_of_int C\<rceil> C
              \<in> set (trace_of (upload_large_file inp))
          \<and> int (length bs) = \<lceil>real_of_int F / real_of_int C\<rceil>
          \<and> concat bs = fl
          \<and> (\<forall>i. Suc i < length bs \<longrightarrow> int (length (bs ! i)) = C)
          \<and> (bs \<noteq> [] \<longrightarrow> int (length (last bs)) = (if F mod C = 0 then C else F mod C))
          \<and> int (sum_list (map length bs)) = F"
proof -
  define C where "C = determine_chunk_size (chunk_size_opt inp) * 1048576"
  define F where "F = int (length fl)"
  define q where "q = \<lceil>real_of_int F / real_of_int C\<rceil>"
  define cs where "cs = nat C"
  define n where "n = nat q"
  define bs where "bs = chunk_bodies (trace_of (upload_large_file inp))"
  have Cpos: "0 < C" using mb(1) unfolding C_def by simp
  have Cub: "C < 9223372036854775775" using mb(2) unfolding C_def by simp
  have cs: "int cs = C" "0 < cs" using Cpos unfolding cs_def by simp_all
  have F0: "0 \<le> F" unfolding F_def by simp
  have cb: "F \<le> q * C" "(q - 1) * C < F"
    "F - (q - 1) * C = (if F mod C = 0 then C else F mod C)"
    using ceil_bounds[OF Cpos q_def] by simp_all
  have q0: "0 \<le> q"
  proof (rule ccontr)
    assume "\<not> 0 \<le> q"
    then have "q \<le> - 1" by simp
    then have "q * C \<le> - 1 * C" using Cpos by (intro mult_right_mono) simp_all
    then show False using cb(1) F0 Cpos by simp
  qed
  have n: "int n = q" using q0 unfolding n_def by simp
  have tc: "total_chunks F C = q" unfolding q_def by (rule total_chunks_exact[OF F0 Cpos Cub])
  have ok: "\<forall>i<n. read_raises inp (0 + i) = None \<and> acknowledged (chunk_reply inp (0 + i))"
    using acks n unfolding q_def F_def C_def by simp
  have mb0: "determine_chunk_size (chunk_size_opt inp) \<noteq> 0" using mb(1) by simp
  have s1: "upload_large_file inp =
      upload_session inp fl C q (chunk_size_warning (chunk_size_opt inp) @ [Print Banner])"
    using upload_large_file_opened[OF key inp cap mb0] tc
    unfolding C_def[symmetric] F_def[symmetric] by simp
  have s2: "upload_chunks (read_raises inp) (chunk_reply inp) sid C n 0 fl
        ((chunk_size_warning (chunk_size_opt inp) @ [Print Banner]) @ [PostInit F q C]) =
      Inr (drop (n * cs) fl,
        ((chunk_size_warning (chunk_size_opt inp) @ [Print Banner]) @ [PostInit F q C]) @
         map (\<lambda>i. PostChunk sid (0 + i) (take cs (drop (i * cs) fl))) [0..<n])"
    using upload_chunks_ok[where rd="read_raises inp" and srv="chunk_reply inp" and idx=0
        and n=n and c=C, of sid fl] Cpos Cub ok
    unfolding cs_def by simp
  have run: "upload_large_file inp =
      complete_upload (complete_reply inp) sid
        (((chunk_size_warning (chunk_size_opt inp) @ [Print Banner]) @ [PostInit F q C]) @
         map (\<lambda>i. PostChunk sid (0 + i) (take cs (drop (i * cs) fl))) [0..<n])"
    unfolding s1 upload_session_opened[OF init opened] n_def[symmetric] F_def[symmetric] s2
    by simp
  obtain ms where tr: "trace_of (upload_large_file inp) =
        (((chunk_size_warning (chunk_size_opt inp) @ [Print Banner]) @ [PostInit F q C]) @
         map (\<lambda>i. PostChunk sid (0 + i) (take cs (drop (i * cs) fl))) [0..<n]) @
        [Print AllChunksUploaded, PostComplete sid] @ map Print ms"
    unfolding run using complete_upload_trace by blast
  have bs: "bs = map (\<lambda>i. take cs (drop (i * cs) fl)) [0..<n]"
    unfolding bs_def tr
    by (simp add: chunk_bodies_append chunk_bodies_warning chunk_bodies_posts chunk_bodies_prints)
  have len: "length bs = n" unfolding bs by simp
  have ncs: "length fl \<le> n * cs"
  proof -
    have "int (length fl) \<le> int (n * cs)" using cb(1) n cs(1) unfolding F_def by simp
    then show ?thesis by linarith
  qed
  have p0: "PostInit F q C \<in> set (trace_of (upload_large_file inp))"
    unfolding tr by simp
  have p1: "int (length bs) = q" using len n by simp
  have p2: "concat bs = fl" unfolding bs concat_chunks using ncs by simp
  have p3: "int (length (bs ! i)) = C" if "Suc i < length bs" for i
  proof -
    have i: "Suc i < n" using that len by simp
    have "int (Suc i) \<le> q - 1" using i n by linarith
    then have "int (Suc i) * C \<le> (q - 1) * C" using Cpos by (intro mult_right_mono) simp_all
    moreover have "int (Suc i * cs) = int (Suc i) * C"
      unfolding cs(1)[symmetric] by (simp only: of_nat_mult)
    ultimately have "int (Suc i * cs) < int (length fl)" using cb(2) unfolding F_def by linarith
    then have "Suc i * cs < length fl" by linarith
    then have "i * cs + cs \<le> length fl" by simp
    then have "length (take cs (drop (i * cs) fl)) = cs" by simp
    moreover have "bs ! i = take cs (drop (i * cs) fl)" unfolding bs using i by simp
    ultimately show ?thesis using cs(1) by simp
  qed
  have p4: "int (length (last bs)) = (if F mod C = 0 then C else F mod C)" if "bs \<noteq> []"
  proof -
    have npos: "0 < n" using that len by (cases n) auto
    have l: "last bs = take cs (drop ((n - 1) * cs) fl)"
      using npos unfolding bs by (cases n) (simp_all del: upt_Suc add: last_map)
    have "int (n - 1) = q - 1" using npos n by linarith
    then have a: "int ((n - 1) * cs) = (q - 1) * C"
      unfolding cs(1)[symmetric] by (simp only: of_nat_mult)
    then have lt: "(n - 1) * cs < length fl" using cb(2) unfolding F_def by linarith
    have "int (length fl - (n - 1) * cs) = F - (q - 1) * C"
      using lt a unfolding F_def by simp
    moreover have "length fl - (n - 1) * cs \<le> cs"
    proof -
      have "n * cs = (n - 1) * cs + cs" using npos by (cases n) simp_all
      then show ?thesis using ncs by linarith
    qed
    ultimately show ?thesis unfolding l using cb(3) by (simp add: min_def)
  qed
  have p5: "int (sum_list (map length bs)) = F"
    using p2 length_concat[of bs] unfolding F_def by simp
  show ?thesis
    unfolding Let_def C_def[symmetric] F_def[symmetric] bs_def[symmetric] q_def[symmetric]
    using p0 p1 p2 p3 p4 p5 by blast
qed

text \<open>A file of 12 MiB with the default chunk size: three chunks, the last of 2 MiB.\<close>

theorem chunked_upload_sends_whole_file_witness:
  "length (chunk_bodies (trace_of (upload_large_file (example_upload 12582912 acks_all)))) = 3
   \<and> concat (chunk_bodies (trace_of (upload_large_file (example_upload 12582912 acks_all))))
       = replicate 12582912 CHR ''x''
   \<and> length (last (chunk_bodies (trace_of (upload_large_file (example_upload 12582912 acks_all)))))
       = 2097152"
proof -
  let ?inp = "example_upload 12582912 acks_all"
  let ?bs = "chunk_bodies (trace_of (upload_large_file ?inp))"
  have t: "int (length ?bs) = 3 \<and> concat ?bs = replicate 12582912 CHR ''x''
      \<and> (?bs \<noteq> [] \<longrightarrow> int (length (last ?bs)) = 2097152)"
    using chunked_upload_sends_whole_file[of ?inp "replicate 12582912 CHR ''x''"
        "\<lparr>status_code = 200, json_body = Inr (JObj [(''session_id'', JStr ''s1'')])\<rparr>"
        "JObj [(''session_id'', JStr ''s1'')]" "JStr ''s1''"]
    by (simp add: example_upload_def key_missing_def acks_all_def http_def Let_def)
  then have "length ?bs = 3" by linarith
  moreover from this have "?bs \<noteq> []" by auto
  ultimately show ?thesis using t by simp
qed

text \<open>
  Claim C3 as stated, for every chunk size, fails at both ends. With
  \<open>--chunk-size=8796093022208\<close> (\<open>2 ^ 63\<close> bytes) and a file of three bytes the init
  call announces one chunk, the read raises OverflowError, and the run ends with
  status 1 without any chunk posted. With \<open>--chunk-size=-1\<close> the count is 0, no chunk
  is read or posted, and the upload is finalized without the file's bytes.
\<close>

theorem oversized_and_negative_chunk_size_post_no_chunk:
  "upload_large_file (example_upload_with 8796093022208 3 acks_all) =
     Inl (1, [Print Banner, PostInit 3 1 9223372036854775808, Print UnexpectedError])
   \<and> concat (chunk_bodies (trace_of (upload_large_file
        (example_upload_with 8796093022208 3 acks_all)))) \<noteq> replicate 3 CHR ''x''
   \<and> upload_large_file (example_upload_with (- 1) 3 acks_all) =
     Inr (JStr ''j1'', [Print Banner, PostInit 3 0 (- 1048576), Print AllChunksUploaded,
                        PostComplete (JStr ''s1''), Print UploadComplete])"
proof -
  have big: "total_chunks 3 9223372036854775808 = 1"
    by (simp add: total_chunks_def Let_def)
  have neg: "total_chunks 3 (- 1048576) = 0"
    by (simp add: total_chunks_def Let_def)
  have a: "upload_large_file (example_upload_with 8796093022208 3 acks_all) =
     Inl (1, [Print Banner, PostInit 3 1 9223372036854775808, Print UnexpectedError])"
    by (simp add: upload_large_file_def example_upload_with_def example_upload_def
        key_missing_def upload_session_def http_def big file_read_def Let_def)
  have b: "upload_large_file (example_upload_with (- 1) 3 acks_all) =
     Inr (JStr ''j1'', [Print Banner, PostInit 3 0 (- 1048576), Print AllChunksUploaded,
                        PostComplete (JStr ''s1''), Print UploadComplete])"
    by (simp add: upload_large_file_def example_upload_with_def example_upload_def
        key_missing_def upload_session_def http_def neg complete_upload_def Let_def)
  show ?thesis unfolding a b by simp
qed

subsection \<open>The size cap\<close>

lemma handler_not_size: "handler e \<noteq> SizeLimitExceeded \<and> SizeLimitExceeded \<noteq> handler e"
  by (cases e) simp_all

lemma error_report_not_size:
  "error_report b d \<noteq> SizeLimitExceeded \<and> SizeLimitExceeded \<noteq> error_report b d"
  by (simp add: error_report_def handler_not_size split: sum.splits)

lemma upload_chunks_no_size:
  "Print SizeLimitExceeded \<notin> set tr \<Longrightarrow>
   Print SizeLimitExceeded \<notin> set (trace_of (upload_chunks rd srv sid c n idx fl tr))"
proof (induction n arbitrary: idx fl tr)
  case 0
  then show ?case by simp
next
  case (Suc n)
  show ?case
  proof (cases "file_read c fl")
    case (Inl e)
    then show ?thesis using Suc.prems by (simp add: handler_not_size)
  next
    case (Inr p)
    obtain chunk_data rest where p: "p = (chunk_data, rest)" by (cases p)
    show ?thesis
    proof (cases "rd idx")
      case (Some e)
      then show ?thesis using Inr p Suc.prems by (simp add: handler_not_size)
    next
      case None
      show ?thesis
      proof (cases "srv idx")
        case (Raises e)
        then show ?thesis using Inr p None Suc.prems by (simp add: handler_not_size)
      next
        case (Reply r)
        show ?thesis
        proof (cases "status_code r \<ge> 400")
          case True
          then show ?thesis using Inr p None Reply Suc.prems
            by (simp add: error_report_not_size)
        next
          case False
          have "Print SizeLimitExceeded \<notin> set (tr @ [PostChunk sid idx chunk_data])"
            using Suc.prems by simp
          from Suc.IH[OF this] show ?thesis using Inr p None Reply False by simp
        qed
      qed
    qed
  qed
qed

lemma complete_upload_no_size:
  "Print SizeLimitExceeded \<notin> set tr \<Longrightarrow>
   Print SizeLimitExceeded \<notin> set (trace_of (complete_upload rep sid tr))"
  by (auto simp: complete_upload_def Let_def handler_not_size error_report_not_size
      split: reply.splits sum.splits)

text \<open>What follows the init call once the session is created (lines 131-198).\<close>

lemma chunks_and_complete_no_size:
  assumes "Print SizeLimitExceeded \<notin> set tr"
  shows "Print SizeLimitExceeded \<notin> set (trace_of
     (case upload_chunks rd srv sid c n 0 fl tr of
        Inl x \<Rightarrow> Inl x
      | Inr (rest, tr2) \<Rightarrow> complete_upload rep sid tr2))"
proof (cases "upload_chunks rd srv sid c n 0 fl tr")
  case (Inl x)
  obtain code t where x: "x = (code, t)" by (cases x)
  show ?thesis
    using upload_chunks_no_size[OF assms, of rd srv sid c n 0 fl] Inl x by simp
next
  case (Inr p)
  obtain rest tr2 where p: "p = (rest, tr2)" by (cases p)
  have "Print SizeLimitExceeded \<notin> set tr2"
    using upload_chunks_no_size[OF assms, of rd srv sid c n 0 fl] Inr p by simp
  from complete_upload_no_size[OF this] show ?thesis using Inr p by simp
qed

lemma upload_session_no_size:
  assumes "Print SizeLimitExceeded \<notin> set tr"
  shows "Print SizeLimitExceeded \<notin> set (trace_of (upload_session inp fl c n tr))"
proof -
  let ?tr1 = "tr @ [PostInit (int (length fl)) n c]"
  have t1: "Print SizeLimitExceeded \<notin> set ?tr1" using assms by simp
  show ?thesis
  proof (cases "init_reply inp")
    case (Raises e)
    then show ?thesis using assms by (simp add: upload_session_def handler_not_size)
  next
    case (Reply r)
    show ?thesis
    proof (cases "status_code r \<ge> 400")
      case True
      then show ?thesis using Reply assms
        by (simp add: upload_session_def error_report_not_size)
    next
      case False
      show ?thesis
      proof (cases "json_body r")
        case (Inl e)
        then show ?thesis using Reply False assms
          by (simp add: upload_session_def handler_not_size)
      next
        case (Inr session)
        show ?thesis
        proof (cases "py_item session ''session_id''")
          case (Inl e)
          then show ?thesis using Reply False Inr assms
            by (simp add: upload_session_def handler_not_size)
        next
          case sid: (Inr sid)
          have lt: "status_code r < 400" using False by simp
          note created = upload_session_created[OF Reply lt Inr sid, of fl c n tr]
          show ?thesis
          proof (cases "open_input_raises inp")
            case (Some e)
            then show ?thesis unfolding created using assms by (simp add: handler_not_size)
          next
            case None
            show ?thesis
              unfolding created None option.case
              by (rule chunks_and_complete_no_size[OF t1])
          qed
        qed
      qed
    qed
  qed
qed

lemma warning_no_size: "Print SizeLimitExceeded \<notin> set (chunk_size_warning opt @ [Print Banner])"
  by (cases opt) simp_all

lemma upload_chunks_extends:
  "\<exists>tr'. trace_of (upload_chunks rd srv sid c n idx fl tr) = tr @ tr'"
proof (induction n arbitrary: idx fl tr)
  case 0
  then show ?case by simp
next
  case (Suc n)
  show ?case
  proof (cases "file_read c fl")
    case (Inl e)
    then show ?thesis by simp
  next
    case (Inr p)
    obtain chunk_data rest where p: "p = (chunk_data, rest)" by (cases p)
    show ?thesis
    proof (cases "rd idx")
      case (Some e)
      then show ?thesis using Inr p by simp
    next
      case None
      show ?thesis
      proof (cases "srv idx")
        case (Raises e)
        then show ?thesis using Inr p None by simp
      next
        case (Reply r)
        show ?thesis
        proof (cases "status_code r \<ge> 400")
          case True
          then show ?thesis using Inr p None Reply by simp
        next
          case False
          obtain tr' where "trace_of (upload_chunks rd srv sid c n (Suc idx) rest
              (tr @ [PostChunk sid idx chunk_data])) =
              (tr @ [PostChunk sid idx chunk_data]) @ tr'"
            using Suc.IH by blast
          then show ?thesis using Inr p None Reply False by simp
        qed
      qed
    qed
  qed
qed

lemma upload_session_first_request:
  "\<exists>tr'. trace_of (upload_session inp fl c n tr) = tr @ PostInit (int (length fl)) n c # tr'"
proof -
  let ?tr1 = "tr @ [PostInit (int (length fl)) n c]"
  have ext: "\<exists>tr'. trace_of (complete_upload rep sid t) = t @ tr'" for rep sid t
    using complete_upload_trace[of rep sid t] by blast
  have a: "\<exists>tr'. trace_of (case upload_chunks (read_raises inp) (chunk_reply inp) sid c (nat n) 0 fl ?tr1 of
        Inl x \<Rightarrow> Inl x
      | Inr (rest, tr2) \<Rightarrow> complete_upload (complete_reply inp) sid tr2) = ?tr1 @ tr'" for sid
  proof (cases "upload_chunks (read_raises inp) (chunk_reply inp) sid c (nat n) 0 fl ?tr1")
    case (Inl x)
    obtain code t where x: "x = (code, t)" by (cases x)
    show ?thesis
      using upload_chunks_extends[of "read_raises inp" "chunk_reply inp" sid c "nat n" 0 fl ?tr1]
        Inl x by simp
  next
    case (Inr p)
    obtain rest tr2 where p: "p = (rest, tr2)" by (cases p)
    obtain t1 where t1: "tr2 = ?tr1 @ t1"
      using upload_chunks_extends[of "read_raises inp" "chunk_reply inp" sid c "nat n" 0 fl ?tr1]
        Inr p by auto
    obtain t2 where "trace_of (complete_upload (complete_reply inp) sid tr2) = tr2 @ t2"
      using ext by blast
    then show ?thesis using Inr p t1 by simp
  qed
  show ?thesis
  proof (cases "init_reply inp")
    case (Raises e)
    then show ?thesis by (simp add: upload_session_def)
  next
    case (Reply r)
    show ?thesis
    proof (cases "status_code r \<ge> 400")
      case True
      then show ?thesis using Reply by (simp add: upload_session_def)
    next
      case False
      show ?thesis
      proof (cases "json_body r")
        case (Inl e)
        then show ?thesis using Reply False by (simp add: upload_session_def)
      next
        case (Inr session)
        show ?thesis
        proof (cases "py_item session ''session_id''")
          case (Inl e)
          then show ?thesis using Reply False Inr by (simp add: upload_session_def)
        next
          case sid: (Inr sid)
          have lt: "status_code r < 400" using False by simp
          note created = upload_session_created[OF Reply lt Inr sid, of fl c n tr]
          show ?thesis
          proof (cases "open_input_raises inp")
            case (Some e)
            then show ?thesis unfolding created by simp
          next
            case None
            show ?thesis
              unfolding created None option.case
              using a[of sid] by simp
          qed
        qed
      qed
    qed
  qed
qed

text \<open>
  Claim C5. With a key and an existing file, a file of more than 2147483648 bytes
  ends the run with status 1 after the size message alone, before any request; a file
  of at most 2147483648 bytes never meets the size message, and its first request
  (when the chunk size is not zero) is the session's init call.
\<close>

theorem size_cap_before_any_request:
  assumes key: "\<not> key_missing (API_KEY inp)"
    and inp: "input_file inp = Some fl"
  shows "(2147483648 < int (length fl) \<longrightarrow>
            upload_large_file inp = Inl (1, [Print SizeLimitExceeded]))
       \<and> (int (length fl) \<le> 2147483648 \<longrightarrow>
            Print SizeLimitExceeded \<notin> set (trace_of (upload_large_file inp))
          \<and> (determine_chunk_size (chunk_size_opt inp) \<noteq> 0 \<longrightarrow>
               (\<exists>tr'. requests (trace_of (upload_large_file inp)) =
                  PostInit (int (length fl))
                    (total_chunks (int (length fl))
                       (determine_chunk_size (chunk_size_opt inp) * 1048576))
                    (determine_chunk_size (chunk_size_opt inp) * 1048576) # tr')))"
proof (intro conjI impI)
  assume "2147483648 < int (length fl)"
  then show "upload_large_file inp = Inl (1, [Print SizeLimitExceeded])"
    using key inp by (simp add: upload_large_file_def)
next
  assume cap: "int (length fl) \<le> 2147483648"
  show "Print SizeLimitExceeded \<notin> set (trace_of (upload_large_file inp))"
  proof (cases "determine_chunk_size (chunk_size_opt inp) = 0")
    case True
    then show ?thesis using key inp cap
      by (cases "chunk_size_opt inp") (simp_all add: upload_large_file_def)
  next
    case False
    show ?thesis
      unfolding upload_large_file_opened[OF key inp cap False]
      by (rule upload_session_no_size[OF warning_no_size])
  qed
next
  assume cap: "int (length fl) \<le> 2147483648"
    and mb: "determine_chunk_size (chunk_size_opt inp) \<noteq> 0"
  obtain tr' where "trace_of (upload_large_file inp) =
      (chunk_size_warning (chunk_size_opt inp) @ [Print Banner]) @
      PostInit (int (length fl))
        (total_chunks (int (length fl)) (determine_chunk_size (chunk_size_opt inp) * 1048576))
        (determine_chunk_size (chunk_size_opt inp) * 1048576) # tr'"
    unfolding upload_large_file_opened[OF key inp cap mb]
    using upload_session_first_request by blast
  then have "requests (trace_of (upload_large_file inp)) =
      PostInit (int (length fl))
        (total_chunks (int (length fl)) (determine_chunk_size (chunk_size_opt inp) * 1048576))
        (determine_chunk_size (chunk_size_opt inp) * 1048576) # requests tr'"
    by (simp add: requests_append requests_warning) (simp add: requests_def)
  then show "\<exists>tr'. requests (trace_of (upload_large_file inp)) =
      PostInit (int (length fl))
        (total_chunks (int (length fl)) (determine_chunk_size (chunk_size_opt inp) * 1048576))
        (determine_chunk_size (chunk_size_opt inp) * 1048576) # tr'"
    by blast
qed

text \<open>One byte over the cap is refused; a file of exactly 2147483648 bytes is not.\<close>

theorem size_cap_before_any_request_witness:
  "upload_large_file (example_upload 2147483649 acks_all) = Inl (1, [Print SizeLimitExceeded])
   \<and> Print SizeLimitExceeded \<notin> set (trace_of (upload_large_file (example_upload 2147483648 acks_all)))"
proof -
  have a: "upload_large_file (example_upload 2147483649 acks_all) = Inl (1, [Print SizeLimitExceeded])"
    using size_cap_before_any_request[of "example_upload 2147483649 acks_all"
        "replicate 2147483649 CHR ''x''"]
    by (simp add: example_upload_def key_missing_def)
  have b: "Print SizeLimitExceeded \<notin> set (trace_of (upload_large_file (example_upload 2147483648 acks_all)))"
    using size_cap_before_any_request[of "example_upload 2147483648 acks_all"
        "replicate 2147483648 CHR ''x''"]
    by (simp add: example_upload_def key_missing_def)
  from a b show ?thesis by simp
qed

subsection \<open>Sequential upload\<close>

text \<open>
  Claim C4. In a session that was created, the requests after the init call are the
  chunk uploads in index order from 0, each sent once, after its chunk was read and
  only after the one before was acknowledged. The first chunk upload that is not
  acknowledged ends the run with status 1, with no further request (no retry, no
  later chunk, no finalize); so does the first read that fails (a chunk size of
  \<open>2 ^ 63 - 33\<close> bytes or more, or an error of the platform), before its chunk is
  posted, and a file that cannot be opened, before any chunk. Only when all chunks
  are read and acknowledged is the finalize call made, last.
\<close>

theorem chunks_sent_in_order_until_first_failure:
  assumes key: "\<not> key_missing (API_KEY inp)"
    and inp: "input_file inp = Some fl"
    and cap: "int (length fl) \<le> 2147483648"
    and mb: "determine_chunk_size (chunk_size_opt inp) \<noteq> 0"
    and init: "init_reply inp = Reply r" "status_code r < 400" "json_body r = Inr session"
      "py_item session ''session_id'' = Inr sid"
  shows "let C = determine_chunk_size (chunk_size_opt inp) * 1048576;
             F = int (length fl);
             n = nat (total_chunks F C);
             post = (\<lambda>i. PostChunk sid i (take (nat C) (drop (i * nat C) fl)));
             reads = (\<lambda>i. C < 9223372036854775775 \<and> read_raises inp i = None)
         in (open_input_raises inp = None \<longrightarrow>
               (\<forall>k<n. (\<forall>i<k. reads i \<and> acknowledged (chunk_reply inp i))
                       \<and> reads k \<and> \<not> acknowledged (chunk_reply inp k)
                  \<longrightarrow> (\<exists>tr. upload_large_file inp = Inl (1, tr) \<and>
                         requests tr = PostInit F (total_chunks F C) C # map post [0..<Suc k]))
             \<and> (\<forall>k<n. (\<forall>i<k. reads i \<and> acknowledged (chunk_reply inp i)) \<and> \<not> reads k
                  \<longrightarrow> (\<exists>tr. upload_large_file inp = Inl (1, tr) \<and>
                         requests tr = PostInit F (total_chunks F C) C # map post [0..<k]))
             \<and> ((\<forall>i<n. reads i \<and> acknowledged (chunk_reply inp i))
                  \<longrightarrow> requests (trace_of (upload_large_file inp)) =
                        PostInit F (total_chunks F C) C # map post [0..<n] @ [PostComplete sid]))
          \<and> (open_input_raises inp \<noteq> None \<longrightarrow>
               (\<exists>tr. upload_large_file inp = Inl (1, tr) \<and>
                  requests tr = [PostInit F (total_chunks F C) C]))"
proof -
  define C where "C = determine_chunk_size (chunk_size_opt inp) * 1048576"
  define F where "F = int (length fl)"
  define n where "n = nat (total_chunks F C)"
  define post where "post = (\<lambda>i. PostChunk sid (0 + i) (take (nat C) (drop (i * nat C) fl)))"
  define reads where "reads = (\<lambda>i. C < 9223372036854775775 \<and> read_raises inp i = None)"
  define tr0 where "tr0 = (chunk_size_warning (chunk_size_opt inp) @ [Print Banner]) @
      [PostInit F (total_chunks F C) C]"
  have r0: "requests tr0 = [PostInit F (total_chunks F C) C]"
    unfolding tr0_def by (simp add: requests_append requests_warning) (simp add: requests_def)
  have C0: "C \<noteq> 0" using mb unfolding C_def by simp
  have Cpos: "0 \<le> C" if "0 < n"
    using that no_chunks_for_negative_size[of C fl] C0
    unfolding n_def F_def by (cases "C < 0") simp_all
  have created: "upload_large_file inp =
      (case open_input_raises inp of
         Some e \<Rightarrow> Inl (1, tr0 @ [Print (handler e)])
       | None \<Rightarrow>
           (case upload_chunks (read_raises inp) (chunk_reply inp) sid C n 0 fl tr0 of
              Inl x \<Rightarrow> Inl x
            | Inr (rest, tr2) \<Rightarrow> complete_upload (complete_reply inp) sid tr2))"
    unfolding upload_large_file_opened[OF key inp cap mb] upload_session_created[OF init]
      C_def[symmetric] F_def[symmetric] n_def[symmetric] tr0_def ..
  have closed: "\<exists>tr. upload_large_file inp = Inl (1, tr) \<and>
        requests tr = [PostInit F (total_chunks F C) C]"
    if shut: "open_input_raises inp \<noteq> None"
  proof -
    obtain e where e: "open_input_raises inp = Some e" using shut by auto
    have "upload_large_file inp = Inl (1, tr0 @ map Print [handler e])"
      unfolding created e by simp
    moreover have "requests (tr0 @ map Print [handler e]) = [PostInit F (total_chunks F C) C]"
      unfolding requests_append r0 requests_prints by simp
    ultimately show ?thesis by blast
  qed
  have stop: "\<exists>tr. upload_large_file inp = Inl (1, tr) \<and>
        requests tr = PostInit F (total_chunks F C) C # map post [0..<Suc k]"
    if opn: "open_input_raises inp = None" and k: "k < n"
      and before: "\<forall>i<k. reads i \<and> acknowledged (chunk_reply inp i)"
      and rk: "reads k" and bad: "\<not> acknowledged (chunk_reply inp k)" for k
  proof -
    have c: "0 \<le> C" "C < 9223372036854775775" using Cpos k rk unfolding reads_def by simp_all
    have b: "\<forall>i<k. read_raises inp (0 + i) = None \<and> acknowledged (chunk_reply inp (0 + i))"
      using before unfolding reads_def by simp
    have rd: "read_raises inp (0 + k) = None" using rk unfolding reads_def by simp
    have bad': "\<not> acknowledged (chunk_reply inp (0 + k))" using bad by simp
    obtain msgs where "upload_chunks (read_raises inp) (chunk_reply inp) sid C n 0 fl tr0 =
        Inl (1, tr0 @ map post [0..<Suc k] @ map Print msgs)"
      using upload_chunks_stop[where rd="read_raises inp" and srv="chunk_reply inp" and idx=0
          and k=k and n=n, OF c k b rd bad', of sid fl tr0]
      unfolding post_def by auto
    then have "upload_large_file inp = Inl (1, tr0 @ map post [0..<Suc k] @ map Print msgs)"
      unfolding created opn by simp
    moreover have "requests (tr0 @ map post [0..<Suc k] @ map Print msgs) =
        PostInit F (total_chunks F C) C # map post [0..<Suc k]"
      unfolding requests_append r0 requests_prints post_def requests_posts by simp
    ultimately show ?thesis by blast
  qed
  have unread: "\<exists>tr. upload_large_file inp = Inl (1, tr) \<and>
        requests tr = PostInit F (total_chunks F C) C # map post [0..<k]"
    if opn: "open_input_raises inp = None" and k: "k < n"
      and before: "\<forall>i<k. reads i \<and> acknowledged (chunk_reply inp i)"
      and rk: "\<not> reads k" for k
  proof -
    have c: "0 \<le> C" using Cpos k by simp
    have b: "\<forall>i<k. (C < 9223372036854775775 \<and> read_raises inp (0 + i) = None)
        \<and> acknowledged (chunk_reply inp (0 + i))"
      using before unfolding reads_def by simp
    have bad: "\<not> (C < 9223372036854775775 \<and> read_raises inp (0 + k) = None)"
      using rk unfolding reads_def by simp
    obtain msgs where "upload_chunks (read_raises inp) (chunk_reply inp) sid C n 0 fl tr0 =
        Inl (1, tr0 @ map post [0..<k] @ map Print msgs)"
      using upload_chunks_read_fails[where rd="read_raises inp" and srv="chunk_reply inp"
          and idx=0 and k=k and n=n, OF c k b bad, of sid fl tr0]
      unfolding post_def by auto
    then have "upload_large_file inp = Inl (1, tr0 @ map post [0..<k] @ map Print msgs)"
      unfolding created opn by simp
    moreover have "requests (tr0 @ map post [0..<k] @ map Print msgs) =
        PostInit F (total_chunks F C) C # map post [0..<k]"
      unfolding requests_append r0 requests_prints post_def requests_posts by simp
    ultimately show ?thesis by blast
  qed
  have all: "requests (trace_of (upload_large_file inp)) =
        PostInit F (total_chunks F C) C # map post [0..<n] @ [PostComplete sid]"
    if opn: "open_input_raises inp = None"
      and acks: "\<forall>i<n. reads i \<and> acknowledged (chunk_reply inp i)"
  proof -
    have chunks: "upload_chunks (read_raises inp) (chunk_reply inp) sid C n 0 fl tr0 =
        Inr (drop (n * nat C) fl, tr0 @ map post [0..<n])"
    proof (cases n)
      case 0
      then show ?thesis by simp
    next
      case (Suc m)
      then have "reads 0" using acks by simp
      then have c: "0 \<le> C" "C < 9223372036854775775"
        using Cpos Suc unfolding reads_def by simp_all
      have b: "\<forall>i<n. read_raises inp (0 + i) = None \<and> acknowledged (chunk_reply inp (0 + i))"
        using acks unfolding reads_def by simp
      show ?thesis
        using upload_chunks_ok[where rd="read_raises inp" and srv="chunk_reply inp" and idx=0
            and n=n, OF c b, of sid fl tr0]
        unfolding post_def by simp
    qed
    obtain ms where "trace_of (upload_large_file inp) =
        (tr0 @ map post [0..<n]) @ [Print AllChunksUploaded, PostComplete sid] @ map Print ms"
      unfolding created opn option.case chunks
      using complete_upload_trace[of "complete_reply inp" sid "tr0 @ map post [0..<n]"]
      by auto
    then have "requests (trace_of (upload_large_file inp)) =
        requests tr0 @ requests (map post [0..<n]) @
        requests [Print AllChunksUploaded, PostComplete sid] @ requests (map Print ms)"
      by (simp only: requests_append append_assoc)
    also have "\<dots> = PostInit F (total_chunks F C) C # map post [0..<n] @ [PostComplete sid]"
      unfolding r0 requests_prints post_def requests_posts by (simp add: requests_def)
    finally show ?thesis .
  qed
  have post: "post = (\<lambda>i. PostChunk sid i (take (nat C) (drop (i * nat C) fl)))"
    unfolding post_def by simp
  show ?thesis
    unfolding Let_def C_def[symmetric] F_def[symmetric] n_def[symmetric] post[symmetric]
    apply (intro conjI impI allI)
    subgoal for k using stop[unfolded reads_def, of k] by blast
    subgoal for k using unread[unfolded reads_def, of k] by blast
    subgoal using all[unfolded reads_def] by blast
    subgoal using closed by blast
    done
qed

text \<open>
  The file of 12 MiB again: when the second chunk is refused the run ends after the
  init call and two chunk uploads; when all are acknowledged the requests are the init
  call, the three chunks in order and the finalize call. And a file of three bytes
  with \<open>--chunk-size=8796093022208\<close>: the first read fails, and the init call is the
  only request.
\<close>

theorem chunks_sent_in_order_until_first_failure_witness:
  "(\<exists>tr. upload_large_file (example_upload 12582912 (fails_at 1)) = Inl (1, tr) \<and>
     requests tr = [PostInit 12582912 3 5242880,
                    PostChunk (JStr ''s1'') 0 (replicate 5242880 CHR ''x''),
                    PostChunk (JStr ''s1'') 1 (replicate 5242880 CHR ''x'')])
   \<and> requests (trace_of (upload_large_file (example_upload 12582912 acks_all))) =
       [PostInit 12582912 3 5242880,
        PostChunk (JStr ''s1'') 0 (replicate 5242880 CHR ''x''),
        PostChunk (JStr ''s1'') 1 (replicate 5242880 CHR ''x''),
        PostChunk (JStr ''s1'') 2 (replicate 2097152 CHR ''x''),
        PostComplete (JStr ''s1'')]
   \<and> (\<exists>tr. upload_large_file (example_upload_with 8796093022208 3 acks_all) = Inl (1, tr) \<and>
         requests tr = [PostInit 3 1 9223372036854775808])"
proof (intro conjI)
  let ?inp = "example_upload 12582912 acks_all"
  have tc: "total_chunks 12582912 5242880 = 3" by (simp add: total_chunks_def Let_def)
  have "(\<forall>i<3. acknowledged (acks_all i)) \<longrightarrow>
      requests (trace_of (upload_large_file ?inp)) =
        PostInit 12582912 3 5242880 #
        map (\<lambda>i. PostChunk (JStr ''s1'') i
              (take 5242880 (drop (i * 5242880) (replicate 12582912 CHR ''x''))))
          [0..<3] @ [PostComplete (JStr ''s1'')]"
    using chunks_sent_in_order_until_first_failure[of ?inp "replicate 12582912 CHR ''x''"
        "\<lparr>status_code = 200, json_body = Inr (JObj [(''session_id'', JStr ''s1'')])\<rparr>"
        "JObj [(''session_id'', JStr ''s1'')]" "JStr ''s1''"]
    by (simp add: example_upload_def key_missing_def http_def Let_def tc)
  moreover have "\<forall>i<3. acknowledged (acks_all i)" by (simp add: acks_all_def http_def)
  moreover have "map (\<lambda>i. PostChunk (JStr ''s1'') i
              (take 5242880 (drop (i * 5242880) (replicate 12582912 CHR ''x''))))
          [0..<3] =
      [PostChunk (JStr ''s1'') 0 (replicate 5242880 CHR ''x''),
       PostChunk (JStr ''s1'') 1 (replicate 5242880 CHR ''x''),
       PostChunk (JStr ''s1'') 2 (replicate 2097152 CHR ''x'')]"
    by (simp add: upt_conv_Cons)
  ultimately show "requests (trace_of (upload_large_file ?inp)) =
       [PostInit 12582912 3 5242880,
        PostChunk (JStr ''s1'') 0 (replicate 5242880 CHR ''x''),
        PostChunk (JStr ''s1'') 1 (replicate 5242880 CHR ''x''),
        PostChunk (JStr ''s1'') 2 (replicate 2097152 CHR ''x''),
        PostComplete (JStr ''s1'')]"
    by simp
next
  show "\<exists>tr. upload_large_file (example_upload 12582912 (fails_at 1)) = Inl (1, tr) \<and>
     requests tr = [PostInit 12582912 3 5242880,
                    PostChunk (JStr ''s1'') 0 (replicate 5242880 CHR ''x''),
                    PostChunk (JStr ''s1'') 1 (replicate 5242880 CHR ''x'')]"
  proof -
    let ?inp = "example_upload 12582912 (fails_at 1)"
    have tc: "total_chunks 12582912 5242880 = 3" by (simp add: total_chunks_def Let_def)
    have stops: "\<forall>k<3. (\<forall>i<k. acknowledged (fails_at 1 i)) \<and> \<not> acknowledged (fails_at 1 k)
         \<longrightarrow> (\<exists>tr. upload_large_file ?inp = Inl (1, tr) \<and>
                requests tr = PostInit 12582912 3 5242880 #
                  map (\<lambda>i. PostChunk (JStr ''s1'') i
                        (take 5242880 (drop (i * 5242880) (replicate 12582912 CHR ''x''))))
                    [0..<Suc k])"
      using chunks_sent_in_order_until_first_failure[of ?inp "replicate 12582912 CHR ''x''"
          "\<lparr>status_code = 200, json_body = Inr (JObj [(''session_id'', JStr ''s1'')])\<rparr>"
          "JObj [(''session_id'', JStr ''s1'')]" "JStr ''s1''"]
      by (simp add: example_upload_def key_missing_def http_def Let_def tc)
    have "(1::nat) < 3" by simp
    moreover have "(\<forall>i<1. acknowledged (fails_at 1 i)) \<and> \<not> acknowledged (fails_at 1 1)"
      by (simp add: fails_at_def http_def)
    ultimately have "\<exists>tr. upload_large_file ?inp = Inl (1, tr) \<and>
                requests tr = PostInit 12582912 3 5242880 #
                  map (\<lambda>i. PostChunk (JStr ''s1'') i
                        (take 5242880 (drop (i * 5242880) (replicate 12582912 CHR ''x''))))
                    [0..<Suc 1]"
      using stops by blast
    moreover have "map (\<lambda>i. PostChunk (JStr ''s1'') i
                        (take 5242880 (drop (i * 5242880) (replicate 12582912 CHR ''x''))))
                    [0..<Suc 1] =
       [PostChunk (JStr ''s1'') 0 (replicate 5242880 CHR ''x''),
        PostChunk (JStr ''s1'') 1 (replicate 5242880 CHR ''x'')]"
      by (simp add: upt_conv_Cons)
    ultimately show ?thesis by (simp only:)
  qed
next
  let ?inp = "example_upload_with 8796093022208 3 acks_all"
  have tc: "total_chunks 3 9223372036854775808 = 1" by (simp add: total_chunks_def Let_def)
  show "\<exists>tr. upload_large_file ?inp = Inl (1, tr) \<and>
         requests tr = [PostInit 3 1 9223372036854775808]"
    using chunks_sent_in_order_until_first_failure[of ?inp "replicate 3 CHR ''x''"
        "\<lparr>status_code = 200, json_body = Inr (JObj [(''session_id'', JStr ''s1'')])\<rparr>"
        "JObj [(''session_id'', JStr ''s1'')]" "JStr ''s1''"]
    by (simp add: example_upload_with_def example_upload_def key_missing_def http_def Let_def tc)
qed

section \<open>Properties of the webhook receiver\<close>

lemma hex_digit_ascii: "(of_char (hex_digit n) :: nat) < 128"
proof -
  have "n mod 16 < 16" by simp
  then have "hex_digit n \<in> set ''0123456789abcdef''"
    unfolding hex_digit_def by (intro nth_mem) simp
  then show ?thesis by auto
qed

lemma hexdigest_ascii: "is_ascii (hexdigest d)"
  by (induction d) (simp_all add: hexdigest_def is_ascii_def hex_digit_ascii)

text \<open>
  Claim C6. With a secret configured, \<open>verify_signature\<close> returns \<open>True\<close> exactly
  when the supplied header equals the hexadecimal digest of the raw body keyed by the
  secret; the comparison is \<open>hmac.compare_digest\<close>. With no secret configured it
  returns \<open>True\<close> for every body and header.
\<close>

theorem signature_verifies_iff_equal:
  "(WEBHOOK_SECRET env \<noteq> [] \<longrightarrow>
      (verify_signature env payload signature = Inr True \<longleftrightarrow>
       signature = hexdigest (hmac_sha256 env (WEBHOOK_SECRET env) payload)))
   \<and> (WEBHOOK_SECRET env = [] \<longrightarrow> verify_signature env payload signature = Inr True)"
proof (intro conjI impI)
  assume secret: "WEBHOOK_SECRET env \<noteq> []"
  let ?expected = "hexdigest (hmac_sha256 env (WEBHOOK_SECRET env) payload)"
  show "verify_signature env payload signature = Inr True \<longleftrightarrow> signature = ?expected"
  proof
    assume "verify_signature env payload signature = Inr True"
    then have "compare_digest ?expected signature = Inr True"
      using secret by (simp add: verify_signature_def)
    then show "signature = ?expected"
      by (simp add: compare_digest_def split: if_splits)
  next
    assume eq: "signature = ?expected"
    have "is_ascii ?expected" by (rule hexdigest_ascii)
    then show "verify_signature env payload signature = Inr True"
      using secret eq by (simp add: verify_signature_def compare_digest_def)
  qed
next
  assume "WEBHOOK_SECRET env = []"
  then show "verify_signature env payload signature = Inr True"
    by (simp add: verify_signature_def)
qed

text \<open>
  With the secret \<open>s3cret\<close>: the digest of the body verifies, \<open>00\<close> does not; with
  no secret, \<open>00\<close> verifies.
\<close>

theorem signature_verifies_iff_equal_witness:
  "verify_signature (example_receiver ''s3cret'') ''body''
      (hexdigest (stand_in_mac ''s3cret'' ''body'')) = Inr True
   \<and> verify_signature (example_receiver ''s3cret'') ''body'' ''00'' \<noteq> Inr True
   \<and> verify_signature (example_receiver []) ''body'' ''00'' = Inr True"
proof -
  have a: "verify_signature (example_receiver ''s3cret'') ''body''
      (hexdigest (stand_in_mac ''s3cret'' ''body'')) = Inr True"
    using signature_verifies_iff_equal[of "example_receiver ''s3cret''" "''body''"
        "hexdigest (stand_in_mac ''s3cret'' ''body'')"]
    by (simp add: example_receiver_def)
  have len: "length (hexdigest (stand_in_mac ''s3cret'' ''body'')) = 64"
    by (simp add: hexdigest_def stand_in_mac_def length_concat sum_list_replicate)
  have ne: "''00'' \<noteq> hexdigest (stand_in_mac ''s3cret'' ''body'')"
  proof
    assume "''00'' = hexdigest (stand_in_mac ''s3cret'' ''body'')"
    then have "length ''00'' = length (hexdigest (stand_in_mac ''s3cret'' ''body''))"
      by (rule arg_cong)
    then show False unfolding len by simp
  qed
  have b: "verify_signature (example_receiver ''s3cret'') ''body'' ''00'' \<noteq> Inr True"
    using signature_verifies_iff_equal[of "example_receiver ''s3cret''" "''body''" "''00''"] ne
    by (simp add: example_receiver_def)
  have c: "verify_signature (example_receiver []) ''body'' ''00'' = Inr True"
    using signature_verifies_iff_equal[of "example_receiver []" "''body''" "''00''"]
    by (simp add: example_receiver_def)
  from a b c show ?thesis by simp
qed

text \<open>
  The scenario of the specification: the failed-conversion event, no secret
  configured, is acknowledged with status code 200.
\<close>

lemma webhook_failed_event_scenario:
  "webhook (example_receiver []) failed_event_body None =
     (200, JObj [(''status'', JStr ''failed''),
                 (''message'', JStr ''Conversion failed event processed''),
                 (''job_id'', JStr ''j1''),
                 (''error'', JStr ''bad input'')])"
  by (simp add: webhook_def example_receiver_def example_loads_def verify_signature_def
      process_webhook_event_def failed_event_def)

text \<open>
  Where the handler does what it means to: 401 for an ASCII signature that differs
  from the expected one (or none at all), 400 when \<open>json.loads\<close> raises
  JSONDecodeError, 200 with the acknowledgement (an object with \<open>status\<close>,
  \<open>message\<close> and \<open>job_id\<close>) when the event is processed, 500 when processing
  raises.
\<close>

lemma webhook_bad_signature_is_401:
  assumes "WEBHOOK_SECRET env \<noteq> []" "is_ascii signature"
    and "signature \<noteq> hexdigest (hmac_sha256 env (WEBHOOK_SECRET env) raw_data)"
  shows "webhook env raw_data (Some signature) = (401, error_body ''Invalid signature'')"
  using assms hexdigest_ascii[of "hmac_sha256 env (WEBHOOK_SECRET env) raw_data"]
  by (auto simp: webhook_def verify_signature_def compare_digest_def)

lemma webhook_missing_signature_is_401:
  assumes "WEBHOOK_SECRET env \<noteq> []"
    and "hmac_sha256 env (WEBHOOK_SECRET env) raw_data \<noteq> []"
  shows "webhook env raw_data None = (401, error_body ''Invalid signature'')"
proof -
  have "hexdigest (hmac_sha256 env (WEBHOOK_SECRET env) raw_data) \<noteq> []"
    using assms(2) by (cases "hmac_sha256 env (WEBHOOK_SECRET env) raw_data")
      (simp_all add: hexdigest_def)
  then show ?thesis
    using assms(1) hexdigest_ascii[of "hmac_sha256 env (WEBHOOK_SECRET env) raw_data"]
    by (auto simp: webhook_def verify_signature_def compare_digest_def is_ascii_def)
qed

lemma webhook_invalid_json_is_400:
  assumes "WEBHOOK_SECRET env = [] \<or>
           header = Some (hexdigest (hmac_sha256 env (WEBHOOK_SECRET env) raw_data))"
    and "loads env raw_data = Inl JSONDecodeError"
  shows "webhook env raw_data header = (400, error_body ''Invalid JSON'')"
  using assms hexdigest_ascii[of "hmac_sha256 env (WEBHOOK_SECRET env) raw_data"]
  by (auto simp: webhook_def verify_signature_def compare_digest_def)

lemma process_webhook_event_keys:
  assumes "process_webhook_event env event_data = Inr result"
  shows "\<exists>kvs. result = JObj kvs \<and>
           {''status'', ''message'', ''job_id''} \<subseteq> fst ` set kvs"
  using assms
  by (auto simp: process_webhook_event_def split: sum.splits if_splits)

lemma webhook_processed_is_200:
  assumes "WEBHOOK_SECRET env = [] \<or>
           header = Some (hexdigest (hmac_sha256 env (WEBHOOK_SECRET env) raw_data))"
    and "loads env raw_data = Inr event_data"
    and "process_webhook_event env event_data = Inr result"
  shows "webhook env raw_data header = (200, result)"
  using assms hexdigest_ascii[of "hmac_sha256 env (WEBHOOK_SECRET env) raw_data"]
  by (auto simp: webhook_def verify_signature_def compare_digest_def)

lemma webhook_processing_error_is_500:
  assumes "WEBHOOK_SECRET env = [] \<or>
           header = Some (hexdigest (hmac_sha256 env (WEBHOOK_SECRET env) raw_data))"
    and "loads env raw_data = Inr event_data"
    and "process_webhook_event env event_data = Inl e"
  shows "webhook env raw_data header = (500, error_body ''Internal server error'')"
  using assms hexdigest_ascii[of "hmac_sha256 env (WEBHOOK_SECRET env) raw_data"]
  by (auto simp: webhook_def verify_signature_def compare_digest_def)

text \<open>
  With a secret configured, a signature header that is not ASCII makes
  \<open>hmac.compare_digest\<close> raise: the answer is 500, not 401. A body that
  \<open>json.loads\<close> cannot decode raises UnicodeDecodeError, which is not a
  JSONDecodeError: the answer is 500, not 400.
\<close>

lemma webhook_non_ascii_signature_general:
  assumes "WEBHOOK_SECRET env \<noteq> []" "\<not> is_ascii signature"
  shows "webhook env raw_data (Some signature) = (500, error_body ''Internal server error'')"
  using assms by (simp add: webhook_def verify_signature_def compare_digest_def)

text \<open>
  Claim C7. The endpoint answers 401 when a secret is configured and the signature
  does not verify. At the header value consisting of the single byte E9, with the
  secret \<open>s3cret\<close> configured, the signature does not verify and the endpoint
  answers 500.
\<close>

theorem webhook_non_ascii_signature_is_500:
  "webhook (example_receiver ''s3cret'') failed_event_body (Some [CHR 0xE9]) =
     (500, error_body ''Internal server error'')"
  by (simp add: webhook_def example_receiver_def verify_signature_def compare_digest_def
      is_ascii_def)

lemma webhook_undecodable_body_is_500:
  assumes "WEBHOOK_SECRET env = []" "loads env raw_data = Inl UnicodeDecodeError"
  shows "webhook env raw_data header = (500, error_body ''Internal server error'')"
  using assms by (simp add: webhook_def)

section \<open>Properties of the downloads\<close>

lemma write_chunks_interrupted:
  "\<exists>ws. write_chunks p (map Inr cs @ Inl e # rest) tr = (Some e, tr @ ws)
        \<and> (\<forall>fs. fs p \<noteq> None \<longrightarrow> files_after ws fs p \<noteq> None)"
proof (induction cs arbitrary: tr)
  case Nil
  have "write_chunks p (map Inr [] @ Inl e # rest) tr = (Some e, tr @ [])
        \<and> (\<forall>fs. fs p \<noteq> None \<longrightarrow> files_after [] fs p \<noteq> None)"
    by (simp add: files_after_def)
  then show ?case by blast
next
  case (Cons c cs)
  let ?tr = "if c \<noteq> [] then tr @ [Write p c] else tr"
  obtain ws where ws: "write_chunks p (map Inr cs @ Inl e # rest) ?tr = (Some e, ?tr @ ws)"
      "\<forall>fs. fs p \<noteq> None \<longrightarrow> files_after ws fs p \<noteq> None"
    using Cons.IH[of ?tr] by blast
  let ?ws = "(if c \<noteq> [] then [Write p c] else []) @ ws"
  have "write_chunks p (map Inr (c # cs) @ Inl e # rest) tr = (Some e, tr @ ?ws)"
    using ws(1) by simp
  moreover have "\<forall>fs. fs p \<noteq> None \<longrightarrow> files_after ?ws fs p \<noteq> None"
    using ws(2) by (simp add: files_after_def)
  ultimately show ?case by blast
qed

lemma files_after_append: "files_after (a @ b) fs = files_after b (files_after a fs)"
  by (simp add: files_after_def)

lemma default_output_nonempty: "default_output env job_id job result = Inr name \<Longrightarrow> name \<noteq> []"
  by (auto simp: default_output_def split: sum.splits json.splits option.splits if_splits)

lemma prepare_download_nonempty:
  "prepare_download env job_id job tr = Inr (name, url, tr2) \<Longrightarrow> name \<noteq> []"
  by (auto simp: prepare_download_def default_output_nonempty
      split: sum.splits if_splits option.splits)

lemma download_to_interrupted:
  assumes name: "output_file \<noteq> []"
    and dl: "download_reply env = Download d" "dl_status d = 200" "content_length d = Inr n"
      "open_raises env = None"
    and stream: "chunks d = map Inr cs @ Inl KeyboardInterrupt # rest"
  shows "fst (download_to env output_file url tr) = 1 \<and>
         files_after (snd (download_to env output_file url tr)) (files env) output_file = None"
proof -
  let ?tr1 = "(tr @ [GetUrl url]) @ [OpenWrite output_file]"
  obtain ws where ws: "write_chunks output_file (chunks d) ?tr1 = (Some KeyboardInterrupt, ?tr1 @ ws)"
      "\<forall>fs. fs output_file \<noteq> None \<longrightarrow> files_after ws fs output_file \<noteq> None"
    unfolding stream using write_chunks_interrupted[of output_file cs KeyboardInterrupt rest ?tr1]
    by blast
  have opened: "files_after ?tr1 (files env) output_file \<noteq> None"
    by (simp add: files_after_def)
  have ex: "files_after (?tr1 @ ws) (files env) output_file \<noteq> None"
    unfolding files_after_append[of ?tr1 ws] using ws(2) opened by blast
  have run: "download_to env output_file url tr =
      (1, (?tr1 @ ws) @ [Print CancelledByUser, Unlink output_file, Print PartialFileDeleted])"
    using dl ws(1) name ex by (simp add: download_to_def on_exception_def)
  show ?thesis unfolding run by (simp add: files_after_def)
qed

text \<open>
  Claim C9, as amended. In download-result.py, when the run has reached the download
  (the job is completed, has a download URL, and the output file is named
  \<open>output_file\<close>), the download answers 200, the file opens, and a keyboard interrupt
  arrives while the stream is read, the process exits with status 1 and the output
  file is not on disk afterwards.
\<close>

theorem interrupted_download_result_leaves_no_file:
  assumes key: "\<not> key_missing (API_KEY env)"
    and job: "job_reply env 0 = Reply r" "status_code r < 400" "json_body r = Inr job_response"
      "choose_job job_response = Some job"
    and ready: "prepare_download env job_id job [GetJob (JStr job_id)] = Inr (output_file, url, tr)"
    and dl: "download_reply env = Download d" "dl_status d = 200" "content_length d = Inr n"
      "open_raises env = None"
    and stream: "chunks d = map Inr cs @ Inl KeyboardInterrupt # rest"
  shows "fst (download_result env job_id) = 1 \<and>
         files_after (snd (download_result env job_id)) (files env) output_file = None"
proof -
  have "download_result env job_id = download_to env output_file url tr"
    using key job ready by (simp add: download_result_def)
  moreover have "output_file \<noteq> []" using ready by (rule prepare_download_nonempty)
  ultimately show ?thesis using download_to_interrupted[OF _ dl stream] by simp
qed

text \<open>
  A completed job, \<open>--output out.pdf\<close>, and a stream interrupted after \<open>abc\<close>:
  exit status 1 and no \<open>out.pdf\<close>.
\<close>

theorem interrupted_download_result_leaves_no_file_witness:
  "fst (download_result (example_env (replay [] (http 200 completed_job))) ''j1'') = 1 \<and>
   files_after (snd (download_result (example_env (replay [] (http 200 completed_job))) ''j1''))
     (files (example_env (replay [] (http 200 completed_job)))) ''out.pdf'' = None"
proof -
  let ?env = "example_env (replay [] (http 200 completed_job))"
  have ready: "prepare_download ?env ''j1'' completed_job [GetJob (JStr ''j1'')] =
      Inr (''out.pdf'', JStr ''https://files/j1'', [GetJob (JStr ''j1''), Print FileInformation])"
    by (simp add: prepare_download_def example_env_def completed_job_def file_information_def
        float_overflow_def)
  show ?thesis
    using interrupted_download_result_leaves_no_file[of ?env
        "\<lparr>status_code = 200, json_body = Inr completed_job\<rparr>" completed_job completed_job
        "''j1''" "''out.pdf''" "JStr ''https://files/j1''"
        "[GetJob (JStr ''j1''), Print FileInformation]"
        "\<lparr>dl_status = 200, content_length = Inr 6,
          chunks = [Inr ''abc'', Inl KeyboardInterrupt, Inr ''def'']\<rparr>" 6 "[''abc'']"
        "[Inr ''def'']"] ready
    by (simp add: example_env_def key_missing_def http_def interrupted_stream_def
        completed_job_def replay_def)
qed

text \<open>
  Claim C9 as stated fails in simple-convert/convert.py: its handler of the keyboard
  interrupt only prints and exits, so the interrupted download leaves the bytes
  written so far in the output file.
\<close>

theorem interrupted_convert_file_keeps_partial_file:
  "fst (convert_file (example_env (replay [] (http 200 completed_job))) completed_job) = 1 \<and>
   files_after (snd (convert_file (example_env (replay [] (http 200 completed_job))) completed_job))
     (files (example_env (replay [] (http 200 completed_job)))) ''out.pdf'' = Some ''abc''"
  by (simp add: convert_file_def conversion_def completed_job_def handle_results_def
      completed_result_def print_results_def choose_output_def save_download_def
      example_env_def interrupted_stream_def files_after_def float_overflow_def)

lemma choose_job_not_list: "\<not> is_list job \<Longrightarrow> choose_job job = Some job"
  by (cases job) simp_all

lemma prepare_download_job_reply:
  "prepare_download (env\<lparr>job_reply := f\<rparr>) job_id job tr = prepare_download env job_id job tr"
proof -
  have d: "default_output (env\<lparr>job_reply := f\<rparr>) job_id job result =
      default_output env job_id job result" for result
    by (simp add: default_output_def split: sum.splits json.splits option.splits)
  show ?thesis
    by (simp add: prepare_download_def d split: sum.splits option.splits)
qed

lemma download_to_job_reply:
  "download_to (env\<lparr>job_reply := f\<rparr>) p url tr = download_to env p url tr"
  by (auto simp: download_to_def Let_def
      split: sum.splits option.splits download_reply.splits prod.splits)

lemma on_exception_extends: "\<exists>t. snd (on_exception fs output_file e tr) = tr @ t"
  by (simp add: on_exception_def split: option.splits)

lemma write_chunks_extends: "\<exists>t. snd (write_chunks p cs tr) = tr @ t"
proof (induction p cs tr rule: write_chunks.induct)
  case (1 path tr)
  then show ?case by simp
next
  case (2 path e rest tr)
  then show ?case by simp
next
  case (3 path chunk rest tr)
  then show ?case by (cases "chunk = []") auto
qed

text \<open>A download that is started begins with the request for the URL it was given.\<close>

lemma download_to_requests_url:
  "\<exists>t. snd (download_to env output_file url tr) = tr @ GetUrl url # t"
proof -
  let ?tr1 = "tr @ [GetUrl url]"
  have ex: "\<exists>t. snd (on_exception fs out e (?tr1 @ u)) = tr @ GetUrl url # t" for fs out e u
  proof -
    obtain t where "snd (on_exception fs out e (?tr1 @ u)) = (?tr1 @ u) @ t"
      using on_exception_extends by blast
    then show ?thesis by simp
  qed
  show ?thesis
  proof (cases "download_reply env")
    case (DownloadRaises e)
    then show ?thesis using ex[of _ _ e "[]"] by (simp add: download_to_def)
  next
    case (Download d)
    show ?thesis
    proof (cases "dl_status d = 200")
      case False
      then show ?thesis using Download by (simp add: download_to_def)
    next
      case True
      show ?thesis
      proof (cases "content_length d")
        case (Inl e)
        then show ?thesis using Download True ex[of _ _ e "[]"] by (simp add: download_to_def)
      next
        case (Inr total_size)
        show ?thesis
        proof (cases "open_raises env")
          case (Some e)
          then show ?thesis using Download True Inr ex[of _ _ e "[]"]
            by (simp add: download_to_def)
        next
          case None
          obtain w where w: "snd (write_chunks output_file (chunks d) (?tr1 @ [OpenWrite output_file])) =
              (?tr1 @ [OpenWrite output_file]) @ w"
            using write_chunks_extends by blast
          obtain res tr2 where wc: "write_chunks output_file (chunks d)
              (?tr1 @ [OpenWrite output_file]) = (res, tr2)"
            by (cases "write_chunks output_file (chunks d) (?tr1 @ [OpenWrite output_file])")
          have tr2: "tr2 = ?tr1 @ (OpenWrite output_file # w)" using w wc by simp
          show ?thesis
          proof (cases res)
            case (Some e)
            then show ?thesis
              using Download True Inr None wc ex[of _ _ e "OpenWrite output_file # w"]
              unfolding tr2 by (simp add: download_to_def)
          next
            case resNone: None
            then show ?thesis
              using Download True Inr None wc
              unfolding tr2 by (simp add: download_to_def)
          qed
        qed
      qed
    qed
  qed
qed

text \<open>
  Claim C10. When the job request is answered with a non-empty JSON array,
  \<open>download_result\<close> takes the array's first item as the job descriptor and goes on
  with it: the run is the checks on that item (status, download URL, file
  information, output name) followed by the download; whenever those checks pass,
  the request for the item's download URL is made; and the run is the one that the
  item answered alone would give. When the array is empty the run prints the error
  and exits with status 1 after the job request alone, with no download request and
  no file touched.
\<close>

theorem list_response_uses_first_item:
  assumes key: "\<not> key_missing (API_KEY env)"
    and rep: "job_reply env 0 = Reply r" "status_code r < 400"
  shows "(json_body r = Inr (JArr (job # rest)) \<longrightarrow>
            download_result env job_id =
              (case prepare_download env job_id job [GetJob (JStr job_id)] of
                 Inl x \<Rightarrow> x
               | Inr (output_file, url, tr) \<Rightarrow> download_to env output_file url tr)
          \<and> (\<forall>output_file url tr.
                prepare_download env job_id job [GetJob (JStr job_id)] = Inr (output_file, url, tr)
                \<longrightarrow> (\<exists>t. snd (download_result env job_id) = tr @ GetUrl url # t))
          \<and> (\<not> is_list job \<longrightarrow>
                download_result env job_id =
                download_result
                  (env\<lparr>job_reply := replay [] (Reply (r\<lparr>json_body := Inr job\<rparr>))\<rparr>) job_id))
       \<and> (json_body r = Inr (JArr []) \<longrightarrow>
            download_result env job_id = (1, [GetJob (JStr job_id), Print EmptyResponse]))"
proof (intro conjI impI allI)
  assume a: "json_body r = Inr (JArr (job # rest))"
  show l: "download_result env job_id =
      (case prepare_download env job_id job [GetJob (JStr job_id)] of
         Inl x \<Rightarrow> x
       | Inr (output_file, url, tr) \<Rightarrow> download_to env output_file url tr)"
    using key rep a by (simp add: download_result_def)
  {
    fix output_file url tr
    assume "prepare_download env job_id job [GetJob (JStr job_id)] = Inr (output_file, url, tr)"
    then have "download_result env job_id = download_to env output_file url tr"
      unfolding l by simp
    then show "\<exists>t. snd (download_result env job_id) = tr @ GetUrl url # t"
      using download_to_requests_url[of env output_file url tr] by simp
  }
  {
    assume nl: "\<not> is_list job"
    let ?env' = "env\<lparr>job_reply := replay [] (Reply (r\<lparr>json_body := Inr job\<rparr>))\<rparr>"
    have "download_result ?env' job_id =
        (case prepare_download env job_id job [GetJob (JStr job_id)] of
           Inl x \<Rightarrow> x
         | Inr (output_file, url, tr2) \<Rightarrow> download_to env output_file url tr2)"
      using key rep nl
      by (simp add: download_result_def replay_def choose_job_not_list
          prepare_download_job_reply download_to_job_reply
          split: sum.splits prod.splits)
    then show "download_result env job_id = download_result ?env' job_id"
      unfolding l by simp
  }
next
  assume "json_body r = Inr (JArr [])"
  then show "download_result env job_id = (1, [GetJob (JStr job_id), Print EmptyResponse])"
    using key rep by (simp add: download_result_def)
qed

text \<open>
  An array of the completed job and a failed one, with \<open>--output out.pdf\<close> and a
  stream that ends: the completed job's URL is requested and its six bytes are
  written to \<open>out.pdf\<close>. In the other order the failed job is the descriptor and
  nothing is downloaded. The empty array stops after the job request.
\<close>

theorem list_response_uses_first_item_witness:
  "download_result
     ((example_env (replay [] (http 200 (JArr [completed_job, job_with_status ''failed'']))))
        \<lparr>download_reply := complete_stream\<rparr>) ''j1'' =
     (0, [GetJob (JStr ''j1''), Print FileInformation, GetUrl (JStr ''https://files/j1''),
          OpenWrite ''out.pdf'', Write ''out.pdf'' ''abc'', Write ''out.pdf'' ''def'',
          Print DownloadComplete])
   \<and> download_result
     ((example_env (replay [] (http 200 (JArr [job_with_status ''failed'', completed_job]))))
        \<lparr>download_reply := complete_stream\<rparr>) ''j1'' =
     (1, [GetJob (JStr ''j1''), Print (FileNotAvailable (JStr ''failed''))])
   \<and> download_result (example_env (replay [] (http 200 (JArr [])))) ''j1'' =
      (1, [GetJob (JStr ''j1''), Print EmptyResponse])"
proof -
  let ?r1 = "\<lparr>status_code = 200, json_body = Inr (JArr [completed_job, job_with_status ''failed''])\<rparr>"
  let ?r2 = "\<lparr>status_code = 200, json_body = Inr (JArr [job_with_status ''failed'', completed_job])\<rparr>"
  let ?e = "\<lparr>status_code = 200, json_body = Inr (JArr [])\<rparr>"
  let ?env1 = "(example_env (replay [] (http 200 (JArr [completed_job, job_with_status ''failed'']))))
        \<lparr>download_reply := complete_stream\<rparr>"
  let ?env2 = "(example_env (replay [] (http 200 (JArr [job_with_status ''failed'', completed_job]))))
        \<lparr>download_reply := complete_stream\<rparr>"
  have a: "download_result ?env1 ''j1'' =
     (0, [GetJob (JStr ''j1''), Print FileInformation, GetUrl (JStr ''https://files/j1''),
          OpenWrite ''out.pdf'', Write ''out.pdf'' ''abc'', Write ''out.pdf'' ''def'',
          Print DownloadComplete])"
    using list_response_uses_first_item[of ?env1 ?r1 completed_job
        "[job_with_status ''failed'']" "''j1''"]
    by (simp add: example_env_def key_missing_def replay_def http_def completed_job_def
        prepare_download_def file_information_def float_overflow_def download_to_def
        complete_stream_def files_after_def)
  have b: "download_result ?env2 ''j1'' =
     (1, [GetJob (JStr ''j1''), Print (FileNotAvailable (JStr ''failed''))])"
    using list_response_uses_first_item[of ?env2 ?r2 "job_with_status ''failed''"
        "[completed_job]" "''j1''"]
    by (simp add: example_env_def key_missing_def replay_def http_def job_with_status_def
        prepare_download_def)
  have c: "download_result (example_env (replay [] (http 200 (JArr [])))) ''j1'' =
      (1, [GetJob (JStr ''j1''), Print EmptyResponse])"
    using list_response_uses_first_item[of "example_env (replay [] (http 200 (JArr [])))" ?e]
    by (simp add: example_env_def key_missing_def replay_def http_def)
  from a b c show ?thesis by simp
qed

section \<open>Properties of the polling loops\<close>

lemma concat_replicate_snoc: "concat (replicate k xs) @ xs = concat (replicate (Suc k) xs)"
  by (induction k) simp_all

lemma monitor_done:
  "\<not> (active status \<and> attempts < max_attempts) \<Longrightarrow>
   monitor max_attempts g srv job_id status job_status attempts tr =
     Inr ((status, job_status, attempts), tr)"
  by (subst monitor.simps) auto

lemma monitor_step:
  assumes "active status" "attempts < max_attempts"
    and "reported g (srv attempts) = Some (st, js)"
  shows "monitor max_attempts g srv job_id status job_status attempts tr =
     monitor max_attempts g srv job_id st (Some js) (Suc attempts) (tr @ [Sleep 2, GetJob job_id])"
  using assms
  by (subst monitor.simps)
     (auto simp: reported_def Let_def split: reply.splits sum.splits if_splits)

lemma monitor_http_error:
  assumes "active status" "attempts < max_attempts"
    and "srv attempts = Reply r" "status_code r \<ge> 400"
  shows "monitor max_attempts g srv job_id status job_status attempts tr =
     Inl (1, tr @ [Sleep 2, GetJob job_id] @ [Print FailedToCheckStatus])"
  using assms by (subst monitor.simps) (simp add: Let_def)

lemma monitor_active_prefix:
  "active status \<Longrightarrow> a + k \<le> max_attempts \<Longrightarrow>
   \<forall>i<k. reports_active g (srv (a + i)) \<Longrightarrow>
   \<exists>st js. active st \<and>
     monitor max_attempts g srv job_id status job_status a tr =
     monitor max_attempts g srv job_id st js (a + k)
       (tr @ concat (replicate k [Sleep 2, GetJob job_id]))"
proof (induction k arbitrary: status job_status a tr)
  case 0
  then show ?case by auto
next
  case (Suc k)
  have "reports_active g (srv (a + 0))" using Suc.prems(3) by blast
  then obtain st1 js1 where r1: "reported g (srv a) = Some (st1, js1)" and a1: "active st1"
    by (auto simp: reports_active_def split: option.splits)
  have lt: "a < max_attempts" using Suc.prems(2) by simp
  have step: "monitor max_attempts g srv job_id status job_status a tr =
      monitor max_attempts g srv job_id st1 (Some js1) (Suc a) (tr @ [Sleep 2, GetJob job_id])"
    by (rule monitor_step[where srv=srv and attempts=a, OF Suc.prems(1) lt r1])
  have le: "Suc a + k \<le> max_attempts" using Suc.prems(2) by simp
  have rest: "\<forall>i<k. reports_active g (srv (Suc a + i))"
  proof (intro allI impI)
    fix i assume "i < k"
    then have "reports_active g (srv (a + Suc i))" using Suc.prems(3) by blast
    then show "reports_active g (srv (Suc a + i))" by simp
  qed
  obtain st js where st: "active st"
    and run: "monitor max_attempts g srv job_id st1 (Some js1) (Suc a) (tr @ [Sleep 2, GetJob job_id]) =
       monitor max_attempts g srv job_id st js (Suc a + k)
         ((tr @ [Sleep 2, GetJob job_id]) @ concat (replicate k [Sleep 2, GetJob job_id]))"
    using Suc.IH[OF a1 le rest, of "Some js1" "tr @ [Sleep 2, GetJob job_id]"] by blast
  have "monitor max_attempts g srv job_id status job_status a tr =
       monitor max_attempts g srv job_id st js (a + Suc k)
         (tr @ concat (replicate (Suc k) [Sleep 2, GetJob job_id]))"
    unfolding step run by simp
  with st show ?case by blast
qed

lemma active_not_terminal: "active st \<Longrightarrow> \<not> terminal st"
  by (auto simp: active_def terminal_def)

lemma timeout_branch:
  assumes "active st"
  shows "handle_results env st js tr = (1, tr @ [Print Timeout])"
proof -
  have "st \<noteq> JStr ''completed''" "st \<noteq> JStr ''failed''"
    using assms by (auto simp: active_def)
  then show ?thesis by (simp add: handle_results_def completed_result_def)
qed

text \<open>
  Claim C1, as amended. In the loop that convert.py, convert-from-url.py and
  upload-large-file.py share, started with a status among \<open>processing\<close>,
  \<open>queued\<close>, \<open>pending\<close>: while every status request succeeds with a status of
  that set and the ceiling is not reached, the loop sleeps two seconds and asks
  again; at the first answer whose status is outside the set (a terminal status in
  particular) it stops, after exactly that many requests, with that status and that
  answer as the job descriptor; and when the first \<open>max_attempts\<close> answers all carry
  a status of the set it stops after exactly \<open>max_attempts\<close> requests, the status
  still in the set, which the result handler reports as a timeout with exit status 1.
\<close>

theorem monitor_polls_until_inactive_or_ceiling:
  assumes start: "active status"
  shows "(k < max_attempts \<and> (\<forall>i<k. reports_active g (srv i)) \<and>
          reported g (srv k) = Some (st, js) \<and> \<not> active st \<longrightarrow>
            monitor max_attempts g srv job_id status job_status 0 tr =
              Inr ((st, Some js, Suc k),
                   tr @ concat (replicate (Suc k) [Sleep 2, GetJob job_id])))
       \<and> ((\<forall>i<max_attempts. reports_active g (srv i)) \<longrightarrow>
            (\<exists>st' js'. active st' \<and>
               monitor max_attempts g srv job_id status job_status 0 tr =
                 Inr ((st', js', max_attempts),
                      tr @ concat (replicate max_attempts [Sleep 2, GetJob job_id])) \<and>
               handle_results env st' js' tr' = (1, tr' @ [Print Timeout])))"
proof (intro conjI impI)
  assume h: "k < max_attempts \<and> (\<forall>i<k. reports_active g (srv i)) \<and>
          reported g (srv k) = Some (st, js) \<and> \<not> active st"
  then have pre: "\<forall>i<k. reports_active g (srv (0 + i))" by simp
  from h have le: "0 + k \<le> max_attempts" by simp
  obtain st1 js1 where a1: "active st1"
    and run: "monitor max_attempts g srv job_id status job_status 0 tr =
       monitor max_attempts g srv job_id st1 js1 (0 + k)
         (tr @ concat (replicate k [Sleep 2, GetJob job_id]))"
    using monitor_active_prefix[OF start le pre] by blast
  have lt: "k < max_attempts" using h by simp
  have rk: "reported g (srv k) = Some (st, js)" using h by simp
  have step: "monitor max_attempts g srv job_id st1 js1 k
         (tr @ concat (replicate k [Sleep 2, GetJob job_id])) =
       monitor max_attempts g srv job_id st (Some js) (Suc k)
         ((tr @ concat (replicate k [Sleep 2, GetJob job_id])) @ [Sleep 2, GetJob job_id])"
    by (rule monitor_step[where srv=srv and attempts=k, OF a1 lt rk])
  have fin: "monitor max_attempts g srv job_id st (Some js) (Suc k)
         ((tr @ concat (replicate k [Sleep 2, GetJob job_id])) @ [Sleep 2, GetJob job_id]) =
       Inr ((st, Some js, Suc k),
         (tr @ concat (replicate k [Sleep 2, GetJob job_id])) @ [Sleep 2, GetJob job_id])"
    using h by (intro monitor_done) simp
  have tr: "(tr @ concat (replicate k [Sleep 2, GetJob job_id])) @ [Sleep 2, GetJob job_id] =
      tr @ concat (replicate (Suc k) [Sleep 2, GetJob job_id])"
    using concat_replicate_snoc[of k "[Sleep 2, GetJob job_id]"] by simp
  show "monitor max_attempts g srv job_id status job_status 0 tr =
      Inr ((st, Some js, Suc k), tr @ concat (replicate (Suc k) [Sleep 2, GetJob job_id]))"
    using run step fin unfolding tr by simp
next
  assume h: "\<forall>i<max_attempts. reports_active g (srv i)"
  then have pre: "\<forall>i<max_attempts. reports_active g (srv (0 + i))" by simp
  have le: "0 + max_attempts \<le> max_attempts" by simp
  obtain st1 js1 where a1: "active st1"
    and run: "monitor max_attempts g srv job_id status job_status 0 tr =
       monitor max_attempts g srv job_id st1 js1 (0 + max_attempts)
         (tr @ concat (replicate max_attempts [Sleep 2, GetJob job_id]))"
    using monitor_active_prefix[OF start le pre] by blast
  have fin: "monitor max_attempts g srv job_id st1 js1 max_attempts
         (tr @ concat (replicate max_attempts [Sleep 2, GetJob job_id])) =
       Inr ((st1, js1, max_attempts),
         tr @ concat (replicate max_attempts [Sleep 2, GetJob job_id]))"
    by (intro monitor_done) simp
  have "monitor max_attempts g srv job_id status job_status 0 tr =
      Inr ((st1, js1, max_attempts), tr @ concat (replicate max_attempts [Sleep 2, GetJob job_id]))"
    using run fin by simp
  with a1 timeout_branch[OF a1, of env js1 tr']
  show "\<exists>st' js'. active st' \<and>
       monitor max_attempts g srv job_id status job_status 0 tr =
         Inr ((st', js', max_attempts),
              tr @ concat (replicate max_attempts [Sleep 2, GetJob job_id])) \<and>
       handle_results env st' js' tr' = (1, tr' @ [Print Timeout])"
    by blast
qed

text \<open>
  Claim C2, as amended. In the loop that convert.py, convert-from-url.py and
  upload-large-file.py share, the first status request answered with a status code
  of 400 or more ends the run at once: the process exits with status 1 after the
  line \<open>Failed to check status\<close> (not the line of a failed job), and no further
  request is made.
\<close>

theorem monitor_aborts_on_http_error:
  assumes start: "active status"
    and k: "k < max_attempts"
    and before: "\<forall>i<k. reports_active g (srv i)"
    and bad: "srv k = Reply r" "status_code r \<ge> 400"
  shows "monitor max_attempts g srv job_id status job_status 0 tr =
     Inl (1, tr @ concat (replicate (Suc k) [Sleep 2, GetJob job_id]) @ [Print FailedToCheckStatus])"
proof -
  have pre: "\<forall>i<k. reports_active g (srv (0 + i))" using before by simp
  have le: "0 + k \<le> max_attempts" using k by simp
  obtain st1 js1 where a1: "active st1"
    and run: "monitor max_attempts g srv job_id status job_status 0 tr =
       monitor max_attempts g srv job_id st1 js1 (0 + k)
         (tr @ concat (replicate k [Sleep 2, GetJob job_id]))"
    using monitor_active_prefix[OF start le pre] by blast
  have err: "monitor max_attempts g srv job_id st1 js1 k
         (tr @ concat (replicate k [Sleep 2, GetJob job_id])) =
       Inl (1, (tr @ concat (replicate k [Sleep 2, GetJob job_id])) @ [Sleep 2, GetJob job_id] @
               [Print FailedToCheckStatus])"
    by (rule monitor_http_error[where srv=srv and attempts=k, OF a1 k bad])
  have tr: "(tr @ concat (replicate k [Sleep 2, GetJob job_id])) @ [Sleep 2, GetJob job_id] @
        [Print FailedToCheckStatus] =
      tr @ concat (replicate (Suc k) [Sleep 2, GetJob job_id]) @ [Print FailedToCheckStatus]"
    using concat_replicate_snoc[of k "[Sleep 2, GetJob job_id]"] by simp
  show ?thesis using run err unfolding tr by simp
qed

lemma polls_append: "polls (a @ b) = polls a + polls b"
  by (simp add: polls_def)

lemma polls_prints: "polls (map Print ms) = 0"
  by (induction ms) (simp_all add: polls_def)

lemma watch_timed_out: "watch srv job_id previous_status 300 tr = (0, tr @ [Print Timeout])"
  by (subst watch.simps) simp

lemma watch_step:
  assumes "attempts < 300"
    and "reported status_item (srv attempts) = Some (st, job)" "\<not> terminal st"
  shows "\<exists>ms. watch srv job_id previous_status attempts tr =
     watch srv job_id st (Suc attempts) (tr @ GetJob job_id # map Print ms @ [Sleep 2])"
proof -
  obtain r where r: "srv attempts = Reply r" "\<not> status_code r \<ge> 400" "json_body r = Inr job"
    "py_item job ''status'' = Inr st"
    using assms(2)
    by (auto simp: reported_def status_item_def split: reply.splits sum.splits if_splits)
  have nt: "st \<noteq> JStr ''completed''" "st \<noteq> JStr ''failed''" "st \<noteq> JStr ''cancelled''"
    using assms(3) by (auto simp: terminal_def)
  consider (same) "st = previous_status"
    | (queued) "st \<noteq> previous_status" "st = JStr ''queued''"
    | (processing) "st \<noteq> previous_status" "st = JStr ''processing''"
    | (other) "st \<noteq> previous_status" "st \<noteq> JStr ''queued''" "st \<noteq> JStr ''processing''"
    by blast
  then show ?thesis
  proof cases
    case same
    have "watch srv job_id previous_status attempts tr =
        watch srv job_id st (Suc attempts) (tr @ GetJob job_id # map Print [] @ [Sleep 2])"
      using assms(1) r nt same by (subst watch.simps) (simp add: Let_def)
    then show ?thesis by blast
  next
    case queued
    have "watch srv job_id previous_status attempts tr =
        watch srv job_id st (Suc attempts) (tr @ GetJob job_id # map Print [JobQueued] @ [Sleep 2])"
      using assms(1) r queued by (subst watch.simps) (simp add: Let_def)
    then show ?thesis by blast
  next
    case processing
    have "watch srv job_id previous_status attempts tr =
        watch srv job_id st (Suc attempts)
          (tr @ GetJob job_id # map Print [JobProcessing] @ [Sleep 2])"
      using assms(1) r processing by (subst watch.simps) (simp add: Let_def)
    then show ?thesis by blast
  next
    case other
    have "watch srv job_id previous_status attempts tr =
        watch srv job_id st (Suc attempts) (tr @ GetJob job_id # map Print [] @ [Sleep 2])"
      using assms(1) r nt other by (subst watch.simps) (simp add: Let_def)
    then show ?thesis by blast
  qed
qed

lemma watch_cancelled:
  assumes "attempts < 300"
    and "reported status_item (srv attempts) = Some (JStr ''cancelled'', job)"
    and "\<not> terminal previous_status"
  shows "watch srv job_id previous_status attempts tr =
     (0, (tr @ [GetJob job_id]) @ [Print JobCancelled])"
proof -
  obtain r where r: "srv attempts = Reply r" "\<not> status_code r \<ge> 400" "json_body r = Inr job"
    "py_item job ''status'' = Inr (JStr ''cancelled'')"
    using assms(2)
    by (auto simp: reported_def status_item_def split: reply.splits sum.splits if_splits)
  have "JStr ''cancelled'' \<noteq> previous_status" using assms(3) by (auto simp: terminal_def)
  then show ?thesis
    using assms(1) r by (subst watch.simps) (simp add: Let_def)
qed

lemma watch_unfinished_prefix:
  "a + k \<le> 300 \<Longrightarrow> \<not> terminal previous_status \<Longrightarrow>
   \<forall>i<k. reports_unfinished (srv (a + i)) \<Longrightarrow>
   \<exists>prev' tr'. \<not> terminal prev' \<and> polls tr' = polls tr + k \<and>
     watch srv job_id previous_status a tr = watch srv job_id prev' (a + k) tr'"
proof (induction k arbitrary: previous_status a tr)
  case 0
  then show ?case by auto
next
  case (Suc k)
  have "reports_unfinished (srv (a + 0))" using Suc.prems(3) by blast
  then obtain st job where r1: "reported status_item (srv a) = Some (st, job)"
    and n1: "\<not> terminal st"
    by (auto simp: reports_unfinished_def split: option.splits)
  have lt: "a < 300" using Suc.prems(1) by simp
  obtain ms where step: "watch srv job_id previous_status a tr =
      watch srv job_id st (Suc a) (tr @ GetJob job_id # map Print ms @ [Sleep 2])"
    using watch_step[where srv=srv and attempts=a, OF lt r1 n1] by blast
  have le: "Suc a + k \<le> 300" using Suc.prems(1) by simp
  have rest: "\<forall>i<k. reports_unfinished (srv (Suc a + i))"
  proof (intro allI impI)
    fix i assume "i < k"
    then have "reports_unfinished (srv (a + Suc i))" using Suc.prems(3) by blast
    then show "reports_unfinished (srv (Suc a + i))" by simp
  qed
  obtain prev' tr' where p: "\<not> terminal prev'"
    and c: "polls tr' = polls (tr @ GetJob job_id # map Print ms @ [Sleep 2]) + k"
    and run: "watch srv job_id st (Suc a) (tr @ GetJob job_id # map Print ms @ [Sleep 2]) =
       watch srv job_id prev' (Suc a + k) tr'"
    using Suc.IH[OF le n1 rest] by blast
  have "polls (tr @ GetJob job_id # map Print ms @ [Sleep 2]) = Suc (polls tr)"
    using polls_prints[of ms] by (simp add: polls_def)
  then have "polls tr' = polls tr + Suc k" using c by simp
  moreover have "watch srv job_id previous_status a tr = watch srv job_id prev' (a + Suc k) tr'"
    unfolding step run by simp
  ultimately show ?case using p by blast
qed

lemma watch_times_out:
  assumes "\<forall>i<300. reports_unfinished (srv i)"
  shows "\<exists>tr'. watch srv job_id JNull 0 [] = (0, tr' @ [Print Timeout]) \<and> polls tr' = 300"
proof -
  have pre: "\<forall>i<300. reports_unfinished (srv (0 + i))" using assms by simp
  have nt: "\<not> terminal JNull" by (simp add: terminal_def)
  obtain prev' tr' where "polls tr' = polls [] + 300"
    and "watch srv job_id JNull 0 [] = watch srv job_id prev' (0 + 300) tr'"
    using watch_unfinished_prefix[of 0 300 JNull srv "[]" job_id, OF _ nt pre] by auto
  then show ?thesis using watch_timed_out[of srv job_id prev' tr'] by (simp add: polls_def)
qed

lemma conversion_times_out:
  assumes "py_item job ''job_id'' = Inr jid"
    and "py_get job ''status'' (JStr ''processing'') = Inr st0" "active st0"
    and "\<forall>i<max_attempts. reports_active status_or_processing (job_reply env i)"
  shows "conversion max_attempts env job =
     (1, concat (replicate max_attempts [Sleep 2, GetJob jid]) @ [Print Timeout])"
proof -
  have pre: "\<forall>i<max_attempts. reports_active status_or_processing (job_reply env (0 + i))"
    using assms(4) by simp
  have le: "0 + max_attempts \<le> max_attempts" by simp
  obtain st1 js1 where a1: "active st1"
    and run: "monitor max_attempts status_or_processing (job_reply env) jid st0 None 0 [] =
       monitor max_attempts status_or_processing (job_reply env) jid st1 js1 (0 + max_attempts)
         ([] @ concat (replicate max_attempts [Sleep 2, GetJob jid]))"
    using monitor_active_prefix[OF assms(3) le pre] by blast
  have fin: "monitor max_attempts status_or_processing (job_reply env) jid st1 js1 max_attempts
         (concat (replicate max_attempts [Sleep 2, GetJob jid])) =
       Inr ((st1, js1, max_attempts), concat (replicate max_attempts [Sleep 2, GetJob jid]))"
    by (intro monitor_done) simp
  have m: "monitor max_attempts status_or_processing (job_reply env) jid st0 None 0 [] =
       Inr ((st1, js1, max_attempts), concat (replicate max_attempts [Sleep 2, GetJob jid]))"
    using run fin by simp
  have nc: "st0 \<noteq> JStr ''completed''" using assms(3) by (auto simp: active_def)
  show ?thesis
    using assms(1,2) nc m timeout_branch[OF a1] by (simp add: conversion_def)
qed

text \<open>
  Claim C8, as amended. In check-status.py with \<open>--watch\<close>, the first terminal
  status being \<open>cancelled\<close> makes the process print the cancellation line and exit
  with status 0. In convert.py and convert-from-url.py, a job whose status is still
  among \<open>processing\<close>, \<open>queued\<close>, \<open>pending\<close> after \<open>max_attempts\<close> requests
  makes the process print the timeout advice and exit with status 1.
\<close>

theorem cancelled_watch_exits_zero_and_timed_out_conversion_exits_one:
  "(\<not> key_missing (API_KEY env) \<and> k < 300 \<and> (\<forall>i<k. reports_unfinished (job_reply env i)) \<and>
    reported status_item (job_reply env k) = Some (JStr ''cancelled'', job) \<longrightarrow>
      (\<exists>tr. check_status env job_id True = (0, tr @ [Print JobCancelled]) \<and> polls tr = Suc k))
   \<and> (py_item job' ''job_id'' = Inr jid \<and>
      py_get job' ''status'' (JStr ''processing'') = Inr st0 \<and> active st0 \<and>
      (\<forall>i<max_attempts. reports_active status_or_processing (job_reply env' i)) \<longrightarrow>
        conversion max_attempts env' job' =
          (1, concat (replicate max_attempts [Sleep 2, GetJob jid]) @ [Print Timeout]))"
proof (intro conjI impI)
  assume h: "\<not> key_missing (API_KEY env) \<and> k < 300 \<and>
    (\<forall>i<k. reports_unfinished (job_reply env i)) \<and>
    reported status_item (job_reply env k) = Some (JStr ''cancelled'', job)"
  then have pre: "\<forall>i<k. reports_unfinished (job_reply env (0 + i))" by simp
  have nt: "\<not> terminal JNull" by (simp add: terminal_def)
  from h have le: "0 + k \<le> 300" by simp
  obtain prev' tr' where p: "\<not> terminal prev'" and c: "polls tr' = polls [] + k"
    and run: "watch (job_reply env) (JStr job_id) JNull 0 [] =
        watch (job_reply env) (JStr job_id) prev' (0 + k) tr'"
    using watch_unfinished_prefix[OF le nt pre] by blast
  have lt: "k < 300" using h by simp
  have rk: "reported status_item (job_reply env k) = Some (JStr ''cancelled'', job)"
    using h by simp
  have "watch (job_reply env) (JStr job_id) prev' k tr' =
      (0, (tr' @ [GetJob (JStr job_id)]) @ [Print JobCancelled])"
    by (rule watch_cancelled[where srv="job_reply env" and attempts=k, OF lt rk p])
  then have "check_status env job_id True =
      (0, (tr' @ [GetJob (JStr job_id)]) @ [Print JobCancelled])"
    using h run by (simp add: check_status_def)
  moreover have "polls (tr' @ [GetJob (JStr job_id)]) = Suc k"
    using c by (simp add: polls_def)
  ultimately show "\<exists>tr. check_status env job_id True = (0, tr @ [Print JobCancelled]) \<and>
      polls tr = Suc k"
    by blast
next
  assume h: "py_item job' ''job_id'' = Inr jid \<and>
      py_get job' ''status'' (JStr ''processing'') = Inr st0 \<and> active st0 \<and>
      (\<forall>i<max_attempts. reports_active status_or_processing (job_reply env' i))"
  then show "conversion max_attempts env' job' =
      (1, concat (replicate max_attempts [Sleep 2, GetJob jid]) @ [Print Timeout])"
    using conversion_times_out[of job' jid st0 max_attempts env'] by blast
qed

lemma reports_active_job: "active (JStr s) \<Longrightarrow>
  reports_active status_or_processing (http 200 (job_with_status s))"
  by (simp add: reports_active_def reported_def http_def status_or_processing_def
      job_with_status_def)

lemma reports_unfinished_job: "\<not> terminal (JStr s) \<Longrightarrow>
  reports_unfinished (http 200 (job_with_status s))"
  by (simp add: reports_unfinished_def reported_def http_def status_item_def
      job_with_status_def)

text \<open>
  The scenario of the specification: the job is created as \<open>queued\<close>, then reported
  \<open>processing\<close> twice and \<open>completed\<close>: three sleeps, three requests, and the
  outcome is the third answer.
\<close>

theorem monitor_polls_until_inactive_or_ceiling_witness:
  "monitor 60 status_or_processing
     (replay [http 200 (job_with_status ''processing''),
              http 200 (job_with_status ''processing'')] (http 200 completed_job))
     (JStr ''j1'') (JStr ''queued'') None 0 [] =
   Inr ((JStr ''completed'', Some completed_job, 3),
        [Sleep 2, GetJob (JStr ''j1''), Sleep 2, GetJob (JStr ''j1''),
         Sleep 2, GetJob (JStr ''j1'')])
   \<and> (\<exists>st js. monitor 60 status_or_processing
               (replay [] (http 200 (job_with_status ''processing'')))
               (JStr ''j1'') (JStr ''queued'') None 0 [] =
             Inr ((st, js, 60), concat (replicate 60 [Sleep 2, GetJob (JStr ''j1'')])))"
proof (rule conjI)
  let ?srv = "replay [] (http 200 (job_with_status ''processing''))"
  have a: "active (JStr ''queued'')" by (simp add: active_def)
  have p: "active (JStr ''processing'')" by (simp add: active_def)
  have pre: "\<forall>i<60. reports_active status_or_processing (?srv i)"
    using reports_active_job[OF p] by (simp add: replay_def)
  have "\<exists>st' js'. active st' \<and>
      monitor 60 status_or_processing ?srv (JStr ''j1'') (JStr ''queued'') None 0 [] =
        Inr ((st', js', 60), [] @ concat (replicate 60 [Sleep 2, GetJob (JStr ''j1'')])) \<and>
      handle_results (example_env ?srv) st' js' [] = (1, [] @ [Print Timeout])"
    using monitor_polls_until_inactive_or_ceiling[OF a, of 0 60 status_or_processing ?srv
        JNull JNull "JStr ''j1''" None "[]" "example_env ?srv" "[]"] pre
    by blast
  then show "\<exists>st js. monitor 60 status_or_processing ?srv (JStr ''j1'') (JStr ''queued'')
      None 0 [] = Inr ((st, js, 60), concat (replicate 60 [Sleep 2, GetJob (JStr ''j1'')]))"
    by auto
next
  show "monitor 60 status_or_processing
     (replay [http 200 (job_with_status ''processing''),
              http 200 (job_with_status ''processing'')] (http 200 completed_job))
     (JStr ''j1'') (JStr ''queued'') None 0 [] =
   Inr ((JStr ''completed'', Some completed_job, 3),
        [Sleep 2, GetJob (JStr ''j1''), Sleep 2, GetJob (JStr ''j1''),
         Sleep 2, GetJob (JStr ''j1'')])"
  proof -
    let ?srv = "replay [http 200 (job_with_status ''processing''),
                http 200 (job_with_status ''processing'')] (http 200 completed_job)"
    have a: "active (JStr ''queued'')" by (simp add: active_def)
    have p: "active (JStr ''processing'')" by (simp add: active_def)
    have pre: "\<forall>i<2. reports_active status_or_processing (?srv i)"
    proof (intro allI impI)
      fix i :: nat assume "i < 2"
      then have "i = 0 \<or> i = 1" by auto
      then show "reports_active status_or_processing (?srv i)"
        using reports_active_job[OF p] by (auto simp: replay_def)
  qed
  have last: "reported status_or_processing (?srv 2) = Some (JStr ''completed'', completed_job)"
    by (simp add: replay_def reported_def http_def status_or_processing_def completed_job_def)
  have na: "\<not> active (JStr ''completed'')" by (simp add: active_def)
  have "(2::nat) < 60" by simp
  with pre last na
  have "monitor 60 status_or_processing ?srv (JStr ''j1'') (JStr ''queued'') None 0 [] =
      Inr ((JStr ''completed'', Some completed_job, Suc 2),
           [] @ concat (replicate (Suc 2) [Sleep 2, GetJob (JStr ''j1'')]))"
    using monitor_polls_until_inactive_or_ceiling[OF a, of 2 60 status_or_processing ?srv
        "JStr ''completed''" completed_job "JStr ''j1''" None "[]"]
    by blast
  then show ?thesis by (simp add: numeral_2_eq_2 numeral_3_eq_3)
  qed
qed

text \<open>
  Claim C1 as stated fails in ocr-convert/ocr-image-to-text.py: its loop goes on
  only for \<open>processing\<close> and \<open>queued\<close>. A job reported \<open>pending\<close>, which is neither
  terminal nor outside the set the claim names, ends the loop after one request of
  the 150 allowed.
\<close>

theorem ocr_poll_stops_on_pending:
  "active (JStr ''pending'') \<and> \<not> terminal (JStr ''pending'') \<and>
   ocr_poll (replay [] (http 200 (job_with_status ''pending''))) (JStr ''j1'') 150 0
     (JStr ''processing'') None [] =
   Inr ((JStr ''pending'', Some (job_with_status ''pending'')),
        [Sleep 2, GetJob (JStr ''j1'')])"
  by code_simp

text \<open>One good answer, then status code 500: two requests, the error line, exit 1.\<close>

theorem monitor_aborts_on_http_error_witness:
  "monitor 60 status_or_processing
     (replay [http 200 (job_with_status ''processing'')] (http 500 (JObj [])))
     (JStr ''j1'') (JStr ''queued'') None 0 [] =
   Inl (1, [Sleep 2, GetJob (JStr ''j1''), Sleep 2, GetJob (JStr ''j1''),
            Print FailedToCheckStatus])"
proof -
  let ?srv = "replay [http 200 (job_with_status ''processing'')] (http 500 (JObj []))"
  have a: "active (JStr ''queued'')" by (simp add: active_def)
  have p: "active (JStr ''processing'')" by (simp add: active_def)
  have pre: "\<forall>i<1. reports_active status_or_processing (?srv i)"
    using reports_active_job[OF p] by (simp add: replay_def)
  have bad: "?srv 1 = Reply \<lparr>status_code = 500, json_body = Inr (JObj [])\<rparr>"
    by (simp add: replay_def http_def)
  have "monitor 60 status_or_processing ?srv (JStr ''j1'') (JStr ''queued'') None 0 [] =
      Inl (1, [] @ concat (replicate (Suc 1) [Sleep 2, GetJob (JStr ''j1'')]) @
              [Print FailedToCheckStatus])"
    using monitor_aborts_on_http_error[OF a _ pre bad, of 60 "JStr ''j1''" None "[]"]
    by simp
  then show ?thesis by simp
qed

text \<open>
  Claim C2 as stated fails in ocr-convert/ocr-image-to-text.py: its loop never reads
  the status code. An answer with status code 500 whose body is not JSON only ends
  the round; the next request is made, and here finds the job completed.
\<close>

theorem ocr_poll_continues_past_http_error:
  "ocr_poll (replay [Reply \<lparr>status_code = 500, json_body = Inl JSONDecodeError\<rparr>]
               (http 200 completed_job)) (JStr ''j1'') 150 0
     (JStr ''processing'') None [] =
   Inr ((JStr ''completed'', Some completed_job),
        [Sleep 2, GetJob (JStr ''j1''), Sleep 2, GetJob (JStr ''j1'')])"
  by code_simp

text \<open>
  A watch that sees \<open>processing\<close> and then \<open>cancelled\<close> exits with status 0 after two
  requests; a conversion whose job stays \<open>processing\<close> exits with status 1 after
  sixty.
\<close>

theorem cancelled_watch_exits_zero_and_timed_out_conversion_exits_one_witness:
  "(\<exists>tr. check_status (example_env (replay [http 200 (job_with_status ''processing'')]
                                     (http 200 (job_with_status ''cancelled'')))) ''j1'' True =
          (0, tr @ [Print JobCancelled]) \<and> polls tr = 2)
   \<and> convert_file (example_env (replay [] (http 200 (job_with_status ''processing''))))
        (job_with_status ''queued'') =
      (1, concat (replicate 60 [Sleep 2, GetJob (JStr ''j1'')]) @ [Print Timeout])"
proof -
  let ?env = "example_env (replay [http 200 (job_with_status ''processing'')]
                                     (http 200 (job_with_status ''cancelled'')))"
  let ?env' = "example_env (replay [] (http 200 (job_with_status ''processing'')))"
  have p: "active (JStr ''processing'')" by (simp add: active_def)
  have u: "\<not> terminal (JStr ''processing'')" by (simp add: terminal_def)
  have h1: "\<not> key_missing (API_KEY ?env) \<and> (1::nat) < 300 \<and>
      (\<forall>i<1. reports_unfinished (job_reply ?env i)) \<and>
      reported status_item (job_reply ?env 1) =
        Some (JStr ''cancelled'', job_with_status ''cancelled'')"
    using reports_unfinished_job[OF u]
    by (simp add: example_env_def key_missing_def replay_def reported_def http_def
        status_item_def job_with_status_def)
  have h2: "py_item (job_with_status ''queued'') ''job_id'' = Inr (JStr ''j1'') \<and>
      py_get (job_with_status ''queued'') ''status'' (JStr ''processing'') = Inr (JStr ''queued'') \<and>
      active (JStr ''queued'') \<and>
      (\<forall>i<60. reports_active status_or_processing (job_reply ?env' i))"
    using reports_active_job[OF p]
    by (simp add: example_env_def replay_def job_with_status_def active_def)
  note t = cancelled_watch_exits_zero_and_timed_out_conversion_exits_one[of ?env 1
      "job_with_status ''cancelled''" "''j1''" "job_with_status ''queued''" "JStr ''j1''"
      "JStr ''queued''" 60 ?env']
  obtain tr where tr: "check_status ?env ''j1'' True = (0, tr @ [Print JobCancelled])"
      "polls tr = Suc 1"
    using t h1 by blast
  from tr(2) have "polls tr = 2" by simp
  with tr(1) have a: "\<exists>tr. check_status ?env ''j1'' True = (0, tr @ [Print JobCancelled]) \<and>
      polls tr = 2"
    by blast
  have b: "conversion 60 ?env' (job_with_status ''queued'') =
      (1, concat (replicate 60 [Sleep 2, GetJob (JStr ''j1'')]) @ [Print Timeout])"
    using t h2 by blast
  from b have b': "convert_file ?env' (job_with_status ''queued'') =
      (1, concat (replicate 60 [Sleep 2, GetJob (JStr ''j1'')]) @ [Print Timeout])"
    by (simp only: convert_file_def)
  from a b' show ?thesis by (rule conjI)
qed

text \<open>
  Claim C8 as stated fails both ways. convert.py has no branch for a cancelled job:
  it prints the timeout advice and exits with status 1. check-status.py with
  \<open>--watch\<close> prints the timeout advice when the attempts run out and returns, so
  the process exits with status 0.
\<close>

theorem cancelled_conversion_exits_one_and_timed_out_watch_exits_zero:
  "convert_file (example_env (replay [] (http 200 (job_with_status ''cancelled''))))
     (job_with_status ''processing'') =
     (1, [Sleep 2, GetJob (JStr ''j1''), Print Timeout])
   \<and> fst (check_status (example_env (replay [] (http 200 (job_with_status ''processing''))))
            ''j1'' True) = 0
   \<and> last (snd (check_status (example_env (replay [] (http 200 (job_with_status ''processing''))))
            ''j1'' True)) = Print Timeout"
proof -
  let ?env = "example_env (replay [] (http 200 (job_with_status ''cancelled'')))"
  have a: "convert_file ?env (job_with_status ''processing'') =
      (1, [Sleep 2, GetJob (JStr ''j1''), Print Timeout])"
    by code_simp
  let ?env' = "example_env (replay [] (http 200 (job_with_status ''processing'')))"
  have u: "\<not> terminal (JStr ''processing'')" by (simp add: terminal_def)
  have "\<forall>i<300. reports_unfinished (job_reply ?env' i)"
    using reports_unfinished_job[OF u] by (simp add: example_env_def replay_def)
  then obtain tr' where "watch (job_reply ?env') (JStr ''j1'') JNull 0 [] =
      (0, tr' @ [Print Timeout])"
    using watch_times_out by blast
  then have b: "check_status ?env' ''j1'' True = (0, tr' @ [Print Timeout])"
    by (simp add: check_status_def example_env_def key_missing_def)
  show ?thesis using a b by simp
qed
end
